theory Spec2Isabelle
  imports Main "HOL-Library.Word"
begin

unbundle bit_operations_syntax

section \<open>Strings as the code reads them\<close>

text \<open>
  A JavaScript string is modelled as a \<open>string\<close>, one \<open>char\<close> per character.
  \<open>String.prototype.trim\<close> removes the leading and trailing white space and line
  terminators; of those, the characters TAB, LF, VT, FF, CR, SPACE and NBSP (code 160)
  are the ones a \<open>char\<close> can hold. A string is falsy exactly when it is empty.
\<close>

definition js_whitespace :: "char \<Rightarrow> bool" where
  "js_whitespace c = ((of_char c :: nat) \<in> {9, 10, 11, 12, 13, 32, 160})"

definition trim :: "string \<Rightarrow> string" where
  "trim s = rev (dropWhile js_whitespace (rev (dropWhile js_whitespace s)))"

text \<open>Truthiness of an optional string (\<open>undefined\<close>, \<open>null\<close> and \<open>''\<close> are falsy).\<close>

fun truthy_string :: "string option \<Rightarrow> bool" where
  "truthy_string None = False"
| "truthy_string (Some s) = (s \<noteq> [])"

text \<open>Truthiness of an optional boolean parameter such as \<open>bot?: boolean\<close>.\<close>

fun truthy_bool :: "bool option \<Rightarrow> bool" where
  "truthy_bool None = False"
| "truthy_bool (Some b) = b"

section \<open>Results, errors and promises\<close>

text \<open>
  Modelled from the spec: \<open>generateError(message)\<close> of \<open>common/errorHandler\<close>, which
  builds the error body sent to the client from its message. A service returns the
  pair \<open>[value, null]\<close> or \<open>[null, error]\<close>, modelled as a sum with the error on the
  left. A promise that rejects (a thrown exception of the persistence layer) is the
  value \<open>Rejected\<close>.
\<close>

datatype error_body = ErrorBody string

definition generateError :: "string \<Rightarrow> error_body" where
  "generateError message = ErrorBody message"

datatype exn = RecordNotFound | TypeError

datatype 'a promise = Resolved 'a | Rejected exn

section \<open>The persistent state and the collaborators of the account service\<close>

text \<open>
  Modelled from the spec: the tables of the persistence layer (\<open>common/database\<close>), with
  the columns the account service reads and writes, the read cache, the live sockets
  of the realtime broadcaster with the events emitted to them, and the outgoing mail.
  The Account table is keyed by its unique \<open>userId\<close>, the User table by its \<open>id\<close>;
  the servers of a user and the applications of an account are the relations the service
  counts.
  Time stamps are milliseconds since the epoch. The tables that the account service
  only deletes from are lists of rows, each row the user id it belongs to and the rest
  of its columns; a Follower row is the pair \<open>(followedById, followedToId)\<close>.
\<close>

record account =
  email :: string
  password :: string
  passwordVersion :: int
  emailConfirmed :: bool
  emailConfirmCode :: "string option"
  resetPasswordCode :: "string option"
  resetPasswordCodeExpiresAt :: "int option"
  applications :: "string list"

record user =
  username :: string
  avatar :: "string option"
  banner :: "string option"
  badges :: int
  customStatus :: "string option"
  servers :: "string list"

datatype event = AUTHENTICATE_ERROR

record world =
  accounts :: "string \<rightharpoonup> account"
  users :: "string \<rightharpoonup> user"
  follower :: "(string \<times> string) list"
  userProfile :: "(string \<times> string) list"
  serverChannelLastSeen :: "(string \<times> string) list"
  userDevice :: "(string \<times> string) list"
  userConnection :: "(string \<times> string) list"
  chatNotice :: "(string \<times> string) list"
  userNotice :: "(string \<times> string) list"
  userCache :: "string \<rightharpoonup> string"
  sockets :: "(string \<times> string) list"
  emitted :: "(string \<times> event \<times> string) list"
  mails :: "(string \<times> string) list"

text \<open>
  What one call of the service reads from outside the state: the configuration flag,
  the clock, the values the random generators of \<open>common/random\<close> return in this call,
  the password hash and the token generator of \<open>common/JWT\<close> (\<open>None\<close> is a null token).
\<close>

record env =
  DEV_MODE :: bool
  now :: int
  generateEmailConfirmCode :: string
  generateTag :: string
  bcrypt_hash :: "string \<Rightarrow> string"
  generateToken :: "string \<Rightarrow> int \<Rightarrow> string option"

text \<open>
  Modelled from the spec: \<open>removeUserCacheByUserIds\<close> of \<open>cache/UserCache\<close>, the
  invalidation of the read cache keyed by user id: the entries of the given users are
  removed, none is updated.
\<close>

definition removeUserCacheByUserIds :: "string list \<Rightarrow> world \<Rightarrow> world" where
  "removeUserCacheByUserIds userIds w = w\<lparr>userCache := userCache w |` (- set userIds)\<rparr>"

text \<open>
  Modelled from the spec: \<open>sendConfirmCodeMail\<close> of \<open>common/mailer\<close>, a fire-and-forget
  dispatch: the pair of code and address is appended to the outgoing mail.
\<close>

definition sendConfirmCodeMail :: "string \<Rightarrow> string \<Rightarrow> world \<Rightarrow> world" where
  "sendConfirmCodeMail code address w = w\<lparr>mails := mails w @ [(code, address)]\<rparr>"

text \<open>
  \<open>prisma.account.update({where: {userId}, data})\<close>: the row of that user is replaced
  and returned; the call rejects when there is no such row.
\<close>

definition account_update ::
  "string \<Rightarrow> (account \<Rightarrow> account) \<Rightarrow> world \<Rightarrow> (account \<times> world) option" where
  "account_update userId f w =
     (case accounts w userId of
        None \<Rightarrow> None
      | Some a \<Rightarrow> Some (f a, w\<lparr>accounts := (accounts w)(userId \<mapsto> f a)\<rparr>))"

text \<open>\<open>prisma.user.update({where: {id}, data})\<close>, in the same way.\<close>

definition user_update ::
  "string \<Rightarrow> (user \<Rightarrow> user) \<Rightarrow> world \<Rightarrow> world option" where
  "user_update userId f w =
     (case users w userId of
        None \<Rightarrow> None
      | Some u \<Rightarrow> Some (w\<lparr>users := (users w)(userId \<mapsto> f u)\<rparr>))"

text \<open>
  \<open>prisma.$transaction([...])\<close>: the operations run in order; when one of them fails
  nothing is committed, which the caller sees as \<open>None\<close> and keeps the state it had.
\<close>

fun transaction :: "(world \<Rightarrow> world option) list \<Rightarrow> world \<Rightarrow> world option" where
  "transaction [] w = Some w"
| "transaction (operation # operations) w =
     (case operation w of None \<Rightarrow> None | Some w' \<Rightarrow> transaction operations w')"

section \<open>services/User/UserManagement.ts\<close>

definition getAccountByUserId :: "string \<Rightarrow> world \<Rightarrow> account option" where
  "getAccountByUserId userId w = accounts w userId"

definition updateAccountConfirmCode ::
  "env \<Rightarrow> string \<Rightarrow> world \<Rightarrow> (string \<times> world) option" where
  "updateAccountConfirmCode e userId w =
     (let code = generateEmailConfirmCode e in
      case account_update userId (\<lambda>a. a\<lparr>emailConfirmCode := Some code\<rparr>) w of
        None \<Rightarrow> None
      | Some (row, w') \<Rightarrow> Some (code, w'))"

definition sendEmailConfirmCode ::
  "env \<Rightarrow> string \<Rightarrow> world \<Rightarrow> (error_body + string) promise \<times> world" where
  "sendEmailConfirmCode e userId w =
     (case getAccountByUserId userId w of
        None \<Rightarrow> (Resolved (Inl (generateError ''Invalid userId.'')), w)
      | Some account \<Rightarrow>
          if emailConfirmed account
          then (Resolved (Inl (generateError ''Email already verified.'')), w)
          else (case updateAccountConfirmCode e userId w of
                  None \<Rightarrow> (Rejected RecordNotFound, w)
                | Some (code, w1) \<Rightarrow>
                    if DEV_MODE e
                    then (Resolved (Inr (''DEV MODE: Email verify code: '' @ code)), w1)
                    else (Resolved (Inr ''Email confirmation code sent.''),
                          sendConfirmCodeMail code (email account) w1)))"

definition updateAccountEmailConfirmed ::
  "env \<Rightarrow> string \<Rightarrow> world \<Rightarrow> (string \<times> world) option" where
  "updateAccountEmailConfirmed e userId w =
     (let code = generateEmailConfirmCode e in
      case account_update userId
             (\<lambda>a. a\<lparr>emailConfirmed := True, emailConfirmCode := None\<rparr>) w of
        None \<Rightarrow> None
      | Some (row, w') \<Rightarrow> Some (code, w'))"

definition verifyEmailConfirmCode ::
  "env \<Rightarrow> string \<Rightarrow> string \<Rightarrow> world \<Rightarrow> (error_body + bool) promise \<times> world" where
  "verifyEmailConfirmCode e userId code w =
     (case getAccountByUserId userId w of
        None \<Rightarrow> (Resolved (Inl (generateError ''Invalid userId.'')), w)
      | Some account \<Rightarrow>
          if emailConfirmed account
          then (Resolved (Inl (generateError ''Email already verified.'')), w)
          else if \<not> truthy_string (emailConfirmCode account)
          then (Resolved (Inl (generateError ''You must request email verification first.'')), w)
          else if emailConfirmCode account \<noteq> Some code
          then (Resolved (Inl (generateError ''Invalid code.'')), w)
          else (case updateAccountEmailConfirmed e userId w of
                  None \<Rightarrow> (Rejected RecordNotFound, w)
                | Some (unused, w1) \<Rightarrow>
                    (Resolved (Inr True), removeUserCacheByUserIds [userId] w1)))"

text \<open>
  Modelled from the spec: the broadcaster \<open>getIO()\<close> of \<open>socket/socket\<close>. A socket is
  the pair of its id and the user it belongs to; \<open>in(userId)\<close> addresses the live
  sockets of that user and \<open>except\<close> leaves out the socket with the given id.
  \<open>disconnectSockets\<close> applies \<open>except\<close> when the id it is given is truthy; the
  addressed sockets are sent the event and are then disconnected.
\<close>

definition addressed :: "string \<Rightarrow> string option \<Rightarrow> string \<times> string \<Rightarrow> bool" where
  "addressed userId excludeSocketId s =
     (snd s = userId \<and>
      (if truthy_string excludeSocketId then Some (fst s) \<noteq> excludeSocketId else True))"

definition disconnectSockets :: "string \<Rightarrow> string option \<Rightarrow> world \<Rightarrow> world" where
  "disconnectSockets userId excludeSocketId w =
     w\<lparr>emitted := emitted w @
          map (\<lambda>s. (fst s, AUTHENTICATE_ERROR, ''Invalid Token''))
            (filter (addressed userId excludeSocketId) (sockets w)),
       sockets := filter (\<lambda>s. \<not> addressed userId excludeSocketId s) (sockets w)\<rparr>"

definition deleteAccountFromDatabase ::
  "env \<Rightarrow> string \<Rightarrow> bool option \<Rightarrow> world \<Rightarrow> world option" where
  "deleteAccountFromDatabase e userId isBot w =
     transaction
       [\<lambda>w. Some (w\<lparr>follower :=
                 filter (\<lambda>r. \<not> (fst r = userId \<or> snd r = userId)) (follower w)\<rparr>),
        \<lambda>w. Some (w\<lparr>userProfile := filter (\<lambda>r. fst r \<noteq> userId) (userProfile w)\<rparr>),
        \<lambda>w. Some (w\<lparr>serverChannelLastSeen :=
                 filter (\<lambda>r. fst r \<noteq> userId) (serverChannelLastSeen w)\<rparr>),
        user_update userId
          (\<lambda>u. u\<lparr>avatar := None, banner := None, badges := 0, customStatus := None,
                username := ''Deleted '' @ (if truthy_bool isBot then ''Bot'' else ''User'')
                            @ '' '' @ generateTag e\<rparr>),
        \<lambda>w. Some (w\<lparr>accounts := (accounts w)(userId := None)\<rparr>),
        \<lambda>w. Some (w\<lparr>userDevice := filter (\<lambda>r. fst r \<noteq> userId) (userDevice w)\<rparr>),
        \<lambda>w. Some (w\<lparr>userConnection := filter (\<lambda>r. fst r \<noteq> userId) (userConnection w)\<rparr>),
        \<lambda>w. Some (w\<lparr>chatNotice := filter (\<lambda>r. fst r \<noteq> userId) (chatNotice w)\<rparr>),
        \<lambda>w. Some (w\<lparr>userNotice := filter (\<lambda>r. fst r \<noteq> userId) (userNotice w)\<rparr>)]
       w"

definition deleteAccount ::
  "env \<Rightarrow> string \<Rightarrow> bool option \<Rightarrow> world \<Rightarrow> (error_body + bool) promise \<times> world" where
  "deleteAccount e userId isBot w =
     (case users w userId of
        None \<Rightarrow> (Resolved (Inl (generateError ''Invalid userId.'')), w)
      | Some u \<Rightarrow>
          if \<not> truthy_bool isBot \<and> length (servers u) \<noteq> 0
          then (Resolved (Inl (generateError
                  ''You must leave all servers before deleting your account.'')), w)
          else if \<not> truthy_bool isBot \<and>
                  (case accounts w userId of
                     None \<Rightarrow> False
                   | Some a \<Rightarrow> length (applications a) \<noteq> 0)
          then (Resolved (Inl (generateError
                  ''You must delete all applications before deleting your account.'')), w)
          else (case deleteAccountFromDatabase e userId isBot w of
                  None \<Rightarrow> (Rejected RecordNotFound, w)
                | Some w1 \<Rightarrow>
                    (Resolved (Inr True),
                     disconnectSockets userId None (removeUserCacheByUserIds [userId] w1))))"

record reset_opts =
  opt_userId :: string
  opt_code :: string
  opt_newPassword :: string

text \<open>
  The \<open>findFirst\<close> of \<open>resetPassword\<close>: the account of that user, when its stored code
  equals the given one and its expiry is not before the clock (\<open>gte\<close>); a null column
  matches neither condition. The account found has the user id of the options, which
  is the one the token is generated for.
\<close>

definition findFirst_reset :: "string \<Rightarrow> string \<Rightarrow> int \<Rightarrow> world \<Rightarrow> account option" where
  "findFirst_reset userId code date w =
     (case accounts w userId of
        None \<Rightarrow> None
      | Some a \<Rightarrow>
          if resetPasswordCode a = Some code \<and>
             (case resetPasswordCodeExpiresAt a of None \<Rightarrow> False | Some t \<Rightarrow> date \<le> t)
          then Some a else None)"

definition resetPassword ::
  "env \<Rightarrow> reset_opts \<Rightarrow> world \<Rightarrow> (error_body + string option) promise \<times> world" where
  "resetPassword e opts w =
     (if opt_code opts = [] then (Resolved (Inl (generateError ''Invalid code.'')), w)
      else if opt_newPassword opts = []
      then (Resolved (Inl (generateError ''Invalid password.'')), w)
      else if opt_userId opts = [] then (Resolved (Inl (generateError ''Invalid userId.'')), w)
      else (case findFirst_reset (opt_userId opts) (opt_code opts) (now e) w of
              None \<Rightarrow> (Resolved (Inl (generateError ''Invalid or expired code.'')), w)
            | Some account \<Rightarrow>
                (case account_update (opt_userId opts)
                        (\<lambda>a. a\<lparr>password := bcrypt_hash e (trim (opt_newPassword opts)),
                              passwordVersion := passwordVersion a + 1,
                              resetPasswordCode := None,
                              resetPasswordCodeExpiresAt := None\<rparr>) w of
                   None \<Rightarrow> (Rejected RecordNotFound, w)
                 | Some (updateResult, w1) \<Rightarrow>
                     (let w2 = removeUserCacheByUserIds [opt_userId opts] w1;
                          newToken = generateToken e (opt_userId opts)
                                       (passwordVersion updateResult)
                      in (Resolved (Inr newToken),
                          if truthy_string newToken
                          then disconnectSockets (opt_userId opts) None w2 else w2)))))"

section \<open>routes/channels/channelMessageCreate.ts\<close>

text \<open>
  The request as the route reads it, after \<open>authenticate\<close>, \<open>channelVerification\<close> and
  \<open>connectBusboyWrapper\<close> have filled in the caches and the uploaded file. The body has
  its declared type \<open>Body\<close>: both fields are optional strings. A channel type is a
  member of the enumeration \<open>ChannelType\<close>, a number; the uploaded file is the content
  of its stream.
\<close>

record inbox_cache =
  canMessage :: bool

record server_cache =
  server_id :: string

record channel_cache =
  channel_id :: string
  channel_type :: nat
  inbox :: "inbox_cache option"
  server :: "server_cache option"

record file_info =
  info_file :: "string option"
  info_filename :: string

record request_body =
  content :: "string option"
  socketId :: "string option"

record request =
  body :: request_body
  channelCache :: channel_cache
  serverCache :: "server_cache option"
  accountCache_user_id :: string
  fileInfo :: "file_info option"

text \<open>
  The validation chains of the route. \<open>optional(true)\<close> skips a field that is
  undefined; \<open>isString\<close> holds of every value of the declared type; \<open>isLength\<close>
  compares the number of characters with the bounds and records its message when
  they are not met.
\<close>

definition isLength :: "nat \<Rightarrow> nat \<Rightarrow> string \<Rightarrow> bool" where
  "isLength min_len max_len s = (min_len \<le> length s \<and> length s \<le> max_len)"

definition content_errors :: "string option \<Rightarrow> string list" where
  "content_errors v =
     (case v of
        None \<Rightarrow> []
      | Some s \<Rightarrow>
          if isLength 1 2000 s then []
          else [''Content length must be between 1 and 2000 characters.''])"

definition socketId_errors :: "string option \<Rightarrow> string list" where
  "socketId_errors v =
     (case v of
        None \<Rightarrow> []
      | Some s \<Rightarrow>
          if isLength 1 255 s then []
          else [''SocketId length must be between 1 and 255 characters.''])"

text \<open>
  Modelled from the spec: \<open>customExpressValidatorResult\<close> of \<open>common/errorHandler\<close>,
  which is null when the chains recorded no error and otherwise the error body of the
  first recorded message, the chains taken in the order the router lists them.
\<close>

definition customExpressValidatorResult :: "request \<Rightarrow> error_body option" where
  "customExpressValidatorResult req =
     (case content_errors (content (body req)) @ socketId_errors (socketId (body req)) of
        [] \<Rightarrow> None
      | message # others \<Rightarrow> Some (generateError message))"

text \<open>
  \<open>uploadImage\<close> of \<open>common/nerimityCDN\<close> resolves to the pair \<open>[uploadedImage, err]\<close>;
  an error is a plain string or an object with a \<open>type\<close>. \<open>createMessage\<close> of
  \<open>services/Message\<close> takes the options below and resolves to the stored message. Both,
  and the list \<open>TextChannelTypes\<close>, are parameters of the route.
\<close>

datatype upload_error = Reason string | Typed string

record uploaded_image =
  image_path :: string
  dimensions_width :: nat
  dimensions_height :: nat

record attachment =
  width :: "nat option"
  height :: "nat option"
  path :: string

datatype MessageType = CONTENT

record createMessage_opts =
  cm_channelId :: string
  cm_content :: "string option"
  cm_userId :: string
  cm_channel :: channel_cache
  cm_serverId :: "string option"
  cm_server :: "server_cache option"
  cm_socketId :: "string option"
  cm_type :: MessageType
  cm_attachment :: "attachment option"

record 'm route_env =
  TextChannelTypes :: "nat list"
  uploadImage :: "string \<Rightarrow> string \<Rightarrow> string \<Rightarrow> uploaded_image option \<times> upload_error option"
  createMessage :: "createMessage_opts \<Rightarrow> 'm"

text \<open>
  What the route does: the response it sends, or the exception it leaves uncaught, and
  the calls it made to its two collaborators, in order.
\<close>

datatype 'm response = Status nat error_body | Json 'm | Uncaught exn

datatype call = UploadImage string string string | CreateMessage createMessage_opts

text \<open>\<open>req.fileInfo?.file\<close>\<close>

definition request_file :: "request \<Rightarrow> string option" where
  "request_file req = (case fileInfo req of None \<Rightarrow> None | Some fi \<Rightarrow> info_file fi)"

text \<open>The last step of the route: \<open>createMessage\<close> and the response with its result.\<close>

definition send_message ::
  "'m route_env \<Rightarrow> request \<Rightarrow> attachment option \<Rightarrow> call list \<Rightarrow> 'm response \<times> call list" where
  "send_message env req att calls =
     (let opts = \<lparr>cm_channelId = channel_id (channelCache req),
                  cm_content = content (body req),
                  cm_userId = accountCache_user_id req,
                  cm_channel = channelCache req,
                  cm_serverId = map_option server_id (server (channelCache req)),
                  cm_server = serverCache req,
                  cm_socketId = socketId (body req),
                  cm_type = CONTENT,
                  cm_attachment = att\<rparr>
      in (Json (createMessage env opts), calls @ [CreateMessage opts]))"

text \<open>
  The path after \<open>if (err)\<close> found no error: the attachment is read off the uploaded
  image, whose non-null assertion fails at run time when the image is null.
\<close>

definition attach_and_send ::
  "'m route_env \<Rightarrow> request \<Rightarrow> uploaded_image option \<Rightarrow> call list \<Rightarrow> 'm response \<times> call list" where
  "attach_and_send env req uploadedImage calls =
     (case uploadedImage of
        None \<Rightarrow> (Uncaught TypeError, calls)
      | Some img \<Rightarrow>
          send_message env req
            (Some \<lparr>width = Some (dimensions_width img), height = Some (dimensions_height img),
                   path = image_path img\<rparr>) calls)"

definition route :: "'m route_env \<Rightarrow> request \<Rightarrow> 'm response \<times> call list" where
  "route env req =
     (case customExpressValidatorResult req of
        Some validateError \<Rightarrow> (Status 400 validateError, [])
      | None \<Rightarrow>
          if (case inbox (channelCache req) of None \<Rightarrow> False | Some i \<Rightarrow> \<not> canMessage i)
          then (Status 400 (generateError ''You cannot message this user.''), [])
          else if channel_type (channelCache req) \<notin> set (TextChannelTypes env)
          then (Status 400 (generateError ''You cannot send messages in this channel.''), [])
          else if \<not> truthy_string (map_option trim (content (body req))) \<and>
                  request_file req = None
          then (Status 400 (generateError ''content or attachment is required.''), [])
          else (case request_file req of
                  None \<Rightarrow> send_message env req None []
                | Some f \<Rightarrow>
                    (let filename = (case fileInfo req of None \<Rightarrow> [] | Some fi \<Rightarrow> info_filename fi);
                         calls = [UploadImage f filename (channel_id (channelCache req))];
                         (uploadedImage, err) =
                           uploadImage env f filename (channel_id (channelCache req))
                     in case err of
                          None \<Rightarrow> attach_and_send env req uploadedImage calls
                        | Some (Reason reason) \<Rightarrow>
                            if reason = [] then attach_and_send env req uploadedImage calls
                            else (Status 403 (generateError reason), calls)
                        | Some (Typed t) \<Rightarrow>
                            if t = ''INVALID_IMAGE''
                            then (Status 403 (generateError
                                    ''You can only upload images for now.''), calls)
                            else (Status 403 (generateError
                                    (''An unknown error has occurred ('' @ t @ '')'')), calls))))"

subsection \<open>The permission middleware in front of the route\<close>

text \<open>
  Modelled from the spec: the middleware \<open>channelPermissions\<close> and
  \<open>memberHasRolePermission\<close> (\<open>middleware/channelPermissions\<close>,
  \<open>middleware/memberHasRolePermission\<close>) and the bits of \<open>common/Bitwise\<close>. The
  channel check grants when the channel's permission integer has the required bit; the
  role check grants when the bitwise OR of the member's role integers has the required
  bit or the member owns the server; an inbox channel passes both unchecked. A check
  that fails ends the request with its reason.
\<close>

record permission_data =
  channel_permissions :: "32 word"
  member_roles :: "32 word list"
  member_isOwner :: bool

record permission_env =
  CHANNEL_SEND_MESSAGE_bit :: "32 word"
  ROLE_SEND_MESSAGE_bit :: "32 word"
  role_denied_message :: string

definition channelPermissions ::
  "32 word \<Rightarrow> string \<Rightarrow> permission_data \<Rightarrow> request \<Rightarrow> string option" where
  "channelPermissions requiredBit message p req =
     (case inbox (channelCache req) of
        Some i \<Rightarrow> None
      | None \<Rightarrow> if channel_permissions p AND requiredBit \<noteq> 0 then None else Some message)"

definition memberHasRolePermission ::
  "32 word \<Rightarrow> string \<Rightarrow> permission_data \<Rightarrow> request \<Rightarrow> string option" where
  "memberHasRolePermission requiredBit message p req =
     (case inbox (channelCache req) of
        Some i \<Rightarrow> None
      | None \<Rightarrow>
          if fold (OR) (member_roles p) 0 AND requiredBit \<noteq> 0 \<or> member_isOwner p then None
          else Some message)"

datatype 'm handled = Denied string | Routed "'m response \<times> call list"

definition channelMessageCreate ::
  "permission_env \<Rightarrow> 'm route_env \<Rightarrow> permission_data \<Rightarrow> request \<Rightarrow> 'm handled" where
  "channelMessageCreate penv env p req =
     (case channelPermissions (CHANNEL_SEND_MESSAGE_bit penv)
             ''You are not allowed to send messages in this channel.'' p req of
        Some reason \<Rightarrow> Denied reason
      | None \<Rightarrow>
          (case memberHasRolePermission (ROLE_SEND_MESSAGE_bit penv)
                  (role_denied_message penv) p req of
             Some reason \<Rightarrow> Denied reason
           | None \<Rightarrow> Routed (route env req)))"

section \<open>Example states and requests\<close>

definition account0 :: account where
  "account0 = \<lparr>email = ''ann@example.org'', password = ''old-hash'', passwordVersion = 3,
     emailConfirmed = False, emailConfirmCode = None, resetPasswordCode = Some ''r3s3t'',
     resetPasswordCodeExpiresAt = Some 5000, applications = []\<rparr>"

definition user0 :: user where
  "user0 = \<lparr>username = ''ann'', avatar = Some ''a.png'', banner = Some ''b.png'', badges = 5,
     customStatus = Some ''hi'', servers = []\<rparr>"

definition world0 :: world where
  "world0 = \<lparr>accounts = [''u1'' \<mapsto> account0], users = [''u1'' \<mapsto> user0],
     follower = [(''u1'', ''u2''), (''u2'', ''u1''), (''u2'', ''u3'')],
     userProfile = [(''u1'', ''bio''), (''u2'', ''bio'')],
     serverChannelLastSeen = [(''u1'', ''c1'')],
     userDevice = [(''u2'', ''d2''), (''u1'', ''d1'')],
     userConnection = [(''u1'', ''g1'')],
     chatNotice = [(''u1'', ''n1'')],
     userNotice = [(''u1'', ''n2''), (''u3'', ''n3'')],
     userCache = [''u1'' \<mapsto> ''cached'', ''u2'' \<mapsto> ''cached''],
     sockets = [(''s1'', ''u1''), (''s2'', ''u2''), (''s3'', ''u1'')],
     emitted = [], mails = []\<rparr>"

text \<open>The same state with the user a member of one server.\<close>

definition world_member :: world where
  "world_member = world0\<lparr>users := [''u1'' \<mapsto> user0\<lparr>servers := [''srv1'']\<rparr>]\<rparr>"

text \<open>The same state with one application registered on the account.\<close>

definition world_application :: world where
  "world_application =
     world0\<lparr>accounts := [''u1'' \<mapsto> account0\<lparr>applications := [''app1'']\<rparr>]\<rparr>"

text \<open>The same state with the email of the account confirmed.\<close>

definition world_confirmed :: world where
  "world_confirmed = world0\<lparr>accounts := [''u1'' \<mapsto> account0\<lparr>emailConfirmed := True\<rparr>]\<rparr>"

definition env0 :: env where
  "env0 = \<lparr>DEV_MODE = False, now = 4000, generateEmailConfirmCode = ''123456'',
     generateTag = ''ab12'', bcrypt_hash = (\<lambda>s. ''bcrypt:'' @ s),
     generateToken = (\<lambda>u v. if v = 4 then Some (u @ ''.v4'') else None)\<rparr>"

definition env_dev :: env where
  "env_dev = env0\<lparr>DEV_MODE := True, generateEmailConfirmCode := ''654321''\<rparr>"

definition env_late :: env where
  "env_late = env0\<lparr>now := 5001\<rparr>"

definition opts0 :: reset_opts where
  "opts0 = \<lparr>opt_userId = ''u1'', opt_code = ''r3s3t'', opt_newPassword = ''hunter2''\<rparr>"

definition opts_blank_password :: reset_opts where
  "opts_blank_password = opts0\<lparr>opt_newPassword := ''  ''\<rparr>"

definition opts_padded_password :: reset_opts where
  "opts_padded_password = opts0\<lparr>opt_newPassword := '' hunter 2  ''\<rparr>"

definition opts_empty_password :: reset_opts where
  "opts_empty_password = \<lparr>opt_userId = ''u1'', opt_code = ''wrong'', opt_newPassword = []\<rparr>"

text \<open>
  A route whose text channel types are 0 and 1, whose image store accepts the file
  \<open>png\<close>, rejects \<open>txt\<close> as no image, \<open>big\<close> with another typed error and everything
  else with a plain reason, and whose \<open>createMessage\<close> returns the options it was given.
\<close>

definition route_env0 :: "createMessage_opts route_env" where
  "route_env0 = \<lparr>TextChannelTypes = [0, 1],
     uploadImage = (\<lambda>f filename channelId.
       if f = ''png''
       then (Some \<lparr>image_path = channelId @ ''/'' @ filename, dimensions_width = 640,
                    dimensions_height = 480\<rparr>, None)
       else if f = ''txt'' then (None, Some (Typed ''INVALID_IMAGE''))
       else if f = ''big'' then (None, Some (Typed ''TOO_LARGE''))
       else (None, Some (Reason ''Could not connect to the CDN.''))),
     createMessage = (\<lambda>opts. opts)\<rparr>"

definition channel0 :: channel_cache where
  "channel0 = \<lparr>channel_id = ''c1'', channel_type = 1, inbox = None,
     server = Some \<lparr>server_id = ''srv1''\<rparr>\<rparr>"

definition channel_blocked :: channel_cache where
  "channel_blocked = \<lparr>channel_id = ''dm1'', channel_type = 0,
     inbox = Some \<lparr>canMessage = False\<rparr>, server = None\<rparr>"

definition request0 :: request where
  "request0 = \<lparr>body = \<lparr>content = Some ''hello'', socketId = None\<rparr>, channelCache = channel0,
     serverCache = Some \<lparr>server_id = ''srv1''\<rparr>, accountCache_user_id = ''u1'',
     fileInfo = None\<rparr>"

definition request_of_length :: "nat \<Rightarrow> request" where
  "request_of_length n =
     request0\<lparr>body := \<lparr>content = Some (replicate n CHR ''a''), socketId = None\<rparr>\<rparr>"

definition request_blank :: request where
  "request_blank = request0\<lparr>body := \<lparr>content = Some ''  '', socketId = None\<rparr>\<rparr>"

definition request_empty :: request where
  "request_empty = request0\<lparr>body := \<lparr>content = Some [], socketId = None\<rparr>\<rparr>"

definition request_blocked :: request where
  "request_blocked =
     request0\<lparr>body := \<lparr>content = None, socketId = None\<rparr>, channelCache := channel_blocked,
       serverCache := None\<rparr>"

definition request_blocked_empty :: request where
  "request_blocked_empty = request_blocked\<lparr>body := \<lparr>content = Some [], socketId = None\<rparr>\<rparr>"

definition request_with_file :: "string \<Rightarrow> request" where
  "request_with_file f =
     request0\<lparr>fileInfo := Some \<lparr>info_file = Some f, info_filename = ''upload.bin''\<rparr>\<rparr>"

definition permission_env0 :: permission_env where
  "permission_env0 = \<lparr>CHANNEL_SEND_MESSAGE_bit = 1, ROLE_SEND_MESSAGE_bit = 2,
     role_denied_message = ''Missing permission''\<rparr>"

definition permission_none :: permission_data where
  "permission_none = \<lparr>channel_permissions = 0, member_roles = [], member_isOwner = False\<rparr>"

section \<open>Properties of the account service\<close>

subsection \<open>Email confirmation\<close>

lemma sendEmailConfirmCode_confirmed:
  "accounts w userId = Some a \<Longrightarrow> emailConfirmed a \<Longrightarrow>
   sendEmailConfirmCode e userId w =
     (Resolved (Inl (generateError ''Email already verified.'')), w)"
  by (simp add: sendEmailConfirmCode_def getAccountByUserId_def)

lemma sendEmailConfirmCode_unconfirmed:
  "accounts w userId = Some a \<Longrightarrow> \<not> emailConfirmed a \<Longrightarrow>
   sendEmailConfirmCode e userId w =
     (if DEV_MODE e
      then (Resolved (Inr (''DEV MODE: Email verify code: '' @ generateEmailConfirmCode e)),
            w\<lparr>accounts := (accounts w)(userId \<mapsto>
                 a\<lparr>emailConfirmCode := Some (generateEmailConfirmCode e)\<rparr>)\<rparr>)
      else (Resolved (Inr ''Email confirmation code sent.''),
            w\<lparr>accounts := (accounts w)(userId \<mapsto>
                 a\<lparr>emailConfirmCode := Some (generateEmailConfirmCode e)\<rparr>),
              mails := mails w @ [(generateEmailConfirmCode e, email a)]\<rparr>))"
  by (simp add: sendEmailConfirmCode_def getAccountByUserId_def updateAccountConfirmCode_def
      account_update_def sendConfirmCodeMail_def Let_def)

lemma verify_no_code:
  "accounts w userId = Some a \<Longrightarrow> \<not> emailConfirmed a \<Longrightarrow>
   \<not> truthy_string (emailConfirmCode a) \<Longrightarrow>
   verifyEmailConfirmCode e userId code w =
     (Resolved (Inl (generateError ''You must request email verification first.'')), w)"
  by (simp add: verifyEmailConfirmCode_def getAccountByUserId_def)

lemma verify_wrong_code:
  "accounts w userId = Some a \<Longrightarrow> \<not> emailConfirmed a \<Longrightarrow>
   truthy_string (emailConfirmCode a) \<Longrightarrow> emailConfirmCode a \<noteq> Some code \<Longrightarrow>
   verifyEmailConfirmCode e userId code w =
     (Resolved (Inl (generateError ''Invalid code.'')), w)"
  by (simp add: verifyEmailConfirmCode_def getAccountByUserId_def)

lemma verify_right_code:
  "accounts w userId = Some a \<Longrightarrow> \<not> emailConfirmed a \<Longrightarrow> code \<noteq> [] \<Longrightarrow>
   emailConfirmCode a = Some code \<Longrightarrow>
   verifyEmailConfirmCode e userId code w =
     (Resolved (Inr True),
      w\<lparr>accounts := (accounts w)(userId \<mapsto>
           a\<lparr>emailConfirmed := True, emailConfirmCode := None\<rparr>),
        userCache := userCache w |` (- {userId})\<rparr>)"
  by (simp add: verifyEmailConfirmCode_def getAccountByUserId_def
      updateAccountEmailConfirmed_def account_update_def removeUserCacheByUserIds_def Let_def)

lemma verify_confirmed:
  "accounts w userId = Some a \<Longrightarrow> emailConfirmed a \<Longrightarrow>
   verifyEmailConfirmCode e userId code w =
     (Resolved (Inl (generateError ''Email already verified.'')), w)"
  by (simp add: verifyEmailConfirmCode_def getAccountByUserId_def)

text \<open>
  Claim C8. For an existing account, \<open>sendEmailConfirmCode\<close> fails with
  "Email already verified." when the email is confirmed and leaves the state as it
  was. Otherwise the freshly generated code becomes the code of the account, whatever
  code was stored before; in development mode the response carries the code and no
  mail is sent; outside development mode the code is mailed to the account's address
  and the response is the generic "Email confirmation code sent.".
\<close>

theorem sendEmailConfirmCode_behaviour:
  assumes "accounts w userId = Some a"
  shows "(emailConfirmed a \<longrightarrow>
            sendEmailConfirmCode e userId w =
              (Resolved (Inl (generateError ''Email already verified.'')), w)) \<and>
         (\<not> emailConfirmed a \<longrightarrow>
            accounts (snd (sendEmailConfirmCode e userId w)) userId =
              Some (a\<lparr>emailConfirmCode := Some (generateEmailConfirmCode e)\<rparr>) \<and>
            (DEV_MODE e \<longrightarrow>
               fst (sendEmailConfirmCode e userId w) =
                 Resolved (Inr (''DEV MODE: Email verify code: '' @ generateEmailConfirmCode e)) \<and>
               mails (snd (sendEmailConfirmCode e userId w)) = mails w) \<and>
            (\<not> DEV_MODE e \<longrightarrow>
               fst (sendEmailConfirmCode e userId w) =
                 Resolved (Inr ''Email confirmation code sent.'') \<and>
               mails (snd (sendEmailConfirmCode e userId w)) =
                 mails w @ [(generateEmailConfirmCode e, email a)]))"
  using assms
  by (simp add: sendEmailConfirmCode_confirmed sendEmailConfirmCode_unconfirmed)

theorem sendEmailConfirmCode_behaviour_witness:
  "accounts world_confirmed ''u1'' = Some (account0\<lparr>emailConfirmed := True\<rparr>) \<and>
   sendEmailConfirmCode env0 ''u1'' world_confirmed =
     (Resolved (Inl (generateError ''Email already verified.'')), world_confirmed) \<and>
   accounts world0 ''u1'' = Some account0 \<and> \<not> emailConfirmed account0 \<and>
   DEV_MODE env_dev \<and> \<not> DEV_MODE env0 \<and>
   accounts (snd (sendEmailConfirmCode env_dev ''u1'' world0)) ''u1'' =
     Some (account0\<lparr>emailConfirmCode := Some ''654321''\<rparr>) \<and>
   fst (sendEmailConfirmCode env_dev ''u1'' world0) =
     Resolved (Inr ''DEV MODE: Email verify code: 654321'') \<and>
   mails (snd (sendEmailConfirmCode env_dev ''u1'' world0)) = [] \<and>
   fst (sendEmailConfirmCode env0 ''u1'' world0) =
     Resolved (Inr ''Email confirmation code sent.'') \<and>
   mails (snd (sendEmailConfirmCode env0 ''u1'' world0)) = [(''123456'', ''ann@example.org'')]"
  using sendEmailConfirmCode_behaviour [of world_confirmed "''u1''" "account0\<lparr>emailConfirmed := True\<rparr>" env0]
    sendEmailConfirmCode_behaviour [of world0 "''u1''" account0 env_dev]
    sendEmailConfirmCode_behaviour [of world0 "''u1''" account0 env0]
  by (simp add: world_confirmed_def world0_def account0_def env0_def env_dev_def)

text \<open>
  Claim C6. Email confirmation of an unconfirmed account is a one-shot state machine.
  Verification fails with "You must request email verification first." while no code
  is stored, and with "Invalid code." when the supplied code differs from the stored
  one. After two requests for a code, which generated \<open>c1\<close> and then a different,
  non-empty \<open>c2\<close>, the account holds \<open>c2\<close> alone: verifying with the stale \<open>c1\<close> fails with
  "Invalid code.", verifying with \<open>c2\<close> succeeds, sets \<open>emailConfirmed\<close>, clears the code
  and removes the user's entry from the read cache. In the state reached, every further
  verification and every further request for a code fails with "Email already
  verified." and changes nothing.
\<close>

theorem email_confirmation_one_shot:
  assumes "accounts w userId = Some a" and "\<not> emailConfirmed a"
    and "c1 = generateEmailConfirmCode e1" and "c2 = generateEmailConfirmCode e2"
    and "c1 \<noteq> c2" and "c2 \<noteq> []"
    and "w1 = snd (sendEmailConfirmCode e1 userId w)"
    and "w2 = snd (sendEmailConfirmCode e2 userId w1)"
    and "w3 = snd (verifyEmailConfirmCode e userId c2 w2)"
  shows "(\<not> truthy_string (emailConfirmCode a) \<longrightarrow>
            verifyEmailConfirmCode e userId code w =
              (Resolved (Inl (generateError ''You must request email verification first.'')), w)) \<and>
         (truthy_string (emailConfirmCode a) \<and> emailConfirmCode a \<noteq> Some code \<longrightarrow>
            verifyEmailConfirmCode e userId code w =
              (Resolved (Inl (generateError ''Invalid code.'')), w)) \<and>
         accounts w2 userId = Some (a\<lparr>emailConfirmCode := Some c2\<rparr>) \<and>
         verifyEmailConfirmCode e userId c1 w2 =
           (Resolved (Inl (generateError ''Invalid code.'')), w2) \<and>
         fst (verifyEmailConfirmCode e userId c2 w2) = Resolved (Inr True) \<and>
         accounts w3 userId = Some (a\<lparr>emailConfirmed := True, emailConfirmCode := None\<rparr>) \<and>
         userCache w3 = userCache w2 |` (- {userId}) \<and>
         verifyEmailConfirmCode e' userId code w3 =
           (Resolved (Inl (generateError ''Email already verified.'')), w3) \<and>
         sendEmailConfirmCode e' userId w3 =
           (Resolved (Inl (generateError ''Email already verified.'')), w3)"
proof -
  let ?a1 = "a\<lparr>emailConfirmCode := Some c1\<rparr>"
  let ?a2 = "a\<lparr>emailConfirmCode := Some c2\<rparr>"
  let ?a3 = "a\<lparr>emailConfirmed := True, emailConfirmCode := None\<rparr>"
  have a1: "accounts w1 userId = Some ?a1"
    using assms(1,2) by (simp add: assms(3,7) sendEmailConfirmCode_unconfirmed)
  have "\<not> emailConfirmed ?a1"
    using assms(2) by simp
  with a1 have a2: "accounts w2 userId = Some ?a2"
    by (simp add: assms(4,8) sendEmailConfirmCode_unconfirmed)
  have pending: "\<not> emailConfirmed ?a2" "truthy_string (emailConfirmCode ?a2)"
    "emailConfirmCode ?a2 \<noteq> Some c1" "emailConfirmCode ?a2 = Some c2"
    using assms(2,5,6) by simp_all
  have stale: "verifyEmailConfirmCode e userId c1 w2 =
      (Resolved (Inl (generateError ''Invalid code.'')), w2)"
    using a2 pending(1-3) by (rule verify_wrong_code)
  have latest: "verifyEmailConfirmCode e userId c2 w2 =
      (Resolved (Inr True),
       w2\<lparr>accounts := (accounts w2)(userId \<mapsto> ?a3), userCache := userCache w2 |` (- {userId})\<rparr>)"
    using verify_right_code [OF a2 pending(1) assms(6) pending(4), of e] by simp
  then have w3: "w3 =
      w2\<lparr>accounts := (accounts w2)(userId \<mapsto> ?a3), userCache := userCache w2 |` (- {userId})\<rparr>"
    by (simp add: assms(9))
  have a3: "accounts w3 userId = Some ?a3"
    by (simp add: w3)
  have confirmed: "emailConfirmed ?a3"
    by simp
  show ?thesis
    using assms(1,2) a2 stale latest w3 a3
      verify_confirmed [OF a3 confirmed] sendEmailConfirmCode_confirmed [OF a3 confirmed]
    by (simp add: verify_no_code verify_wrong_code)
qed

theorem email_confirmation_one_shot_witness:
  "accounts world0 ''u1'' = Some account0 \<and> \<not> emailConfirmed account0 \<and>
   \<not> truthy_string (emailConfirmCode account0) \<and>
   generateEmailConfirmCode env0 = ''123456'' \<and> generateEmailConfirmCode env_dev = ''654321'' \<and>
   verifyEmailConfirmCode env0 ''u1'' ''654321'' world0 =
     (Resolved (Inl (generateError ''You must request email verification first.'')), world0) \<and>
   accounts (snd (sendEmailConfirmCode env_dev ''u1'' (snd (sendEmailConfirmCode env0 ''u1'' world0))))
     ''u1'' = Some (account0\<lparr>emailConfirmCode := Some ''654321''\<rparr>) \<and>
   fst (verifyEmailConfirmCode env0 ''u1'' ''123456''
     (snd (sendEmailConfirmCode env_dev ''u1'' (snd (sendEmailConfirmCode env0 ''u1'' world0))))) =
     Resolved (Inl (generateError ''Invalid code.'')) \<and>
   fst (verifyEmailConfirmCode env0 ''u1'' ''654321''
     (snd (sendEmailConfirmCode env_dev ''u1'' (snd (sendEmailConfirmCode env0 ''u1'' world0))))) =
     Resolved (Inr True) \<and>
   fst (verifyEmailConfirmCode env0 ''u1'' ''654321''
     (snd (verifyEmailConfirmCode env0 ''u1'' ''654321''
       (snd (sendEmailConfirmCode env_dev ''u1'' (snd (sendEmailConfirmCode env0 ''u1'' world0))))))) =
     Resolved (Inl (generateError ''Email already verified.''))"
proof -
  have h1: "accounts world0 ''u1'' = Some account0"
    by (simp add: world0_def)
  have h2: "\<not> emailConfirmed account0" and h3: "\<not> truthy_string (emailConfirmCode account0)"
    by (simp_all add: account0_def)
  have c1: "generateEmailConfirmCode env0 = ''123456''"
    and c2: "generateEmailConfirmCode env_dev = ''654321''"
    by (simp_all add: env0_def env_dev_def)
  have h4: "generateEmailConfirmCode env0 \<noteq> generateEmailConfirmCode env_dev"
    and h5: "generateEmailConfirmCode env_dev \<noteq> []"
    by (simp_all add: c1 c2)
  show ?thesis
    using email_confirmation_one_shot [OF h1 h2 refl refl h4 h5 refl refl refl,
        where e = env0 and code = "''654321''" and e' = env0] h1 h2 h3
    by (simp add: c1 c2)
qed

subsection \<open>Password reset\<close>

lemma trim_whitespace:
  assumes "\<forall>c\<in>set s. js_whitespace c"
  shows "trim s = []"
proof -
  have "dropWhile js_whitespace s = []"
    using assms by simp
  then show ?thesis
    unfolding trim_def by (simp only: rev.simps dropWhile.simps)
qed

lemma findFirst_reset_None_iff:
  "findFirst_reset userId code date w = None \<longleftrightarrow>
   \<not> (\<exists>a t. accounts w userId = Some a \<and> resetPasswordCode a = Some code \<and>
          resetPasswordCodeExpiresAt a = Some t \<and> date \<le> t)"
  by (auto simp: findFirst_reset_def split: option.splits)

lemma resetPassword_no_match:
  assumes "opt_code opts \<noteq> []" "opt_newPassword opts \<noteq> []" "opt_userId opts \<noteq> []"
    and "findFirst_reset (opt_userId opts) (opt_code opts) (now e) w = None"
  shows "resetPassword e opts w =
     (Resolved (Inl (generateError ''Invalid or expired code.'')), w)"
  using assms by (simp add: resetPassword_def)

lemma resetPassword_match:
  assumes "opt_code opts \<noteq> []" "opt_newPassword opts \<noteq> []" "opt_userId opts \<noteq> []"
    and "accounts w (opt_userId opts) = Some a"
    and "resetPasswordCode a = Some (opt_code opts)"
    and "resetPasswordCodeExpiresAt a = Some t" and "now e \<le> t"
  shows "resetPassword e opts w =
     (Resolved (Inr (generateToken e (opt_userId opts) (passwordVersion a + 1))),
      (if truthy_string (generateToken e (opt_userId opts) (passwordVersion a + 1))
       then disconnectSockets (opt_userId opts) None else (\<lambda>w. w))
        (w\<lparr>accounts := (accounts w)(opt_userId opts \<mapsto>
              a\<lparr>password := bcrypt_hash e (trim (opt_newPassword opts)),
                passwordVersion := passwordVersion a + 1,
                resetPasswordCode := None, resetPasswordCodeExpiresAt := None\<rparr>),
            userCache := userCache w |` (- {opt_userId opts})\<rparr>))"
  using assms
  by (simp add: resetPassword_def findFirst_reset_def account_update_def
      removeUserCacheByUserIds_def Let_def)

lemma resetPassword_error_unchanged:
  "fst (resetPassword e opts w) = Resolved (Inl err) \<Longrightarrow> snd (resetPassword e opts w) = w"
  by (auto simp: resetPassword_def Let_def split: if_splits option.splits prod.splits)

lemma resetPassword_value_cases:
  assumes "fst (resetPassword e opts w) = Resolved (Inr newToken)"
  obtains a t where "opt_code opts \<noteq> []" "opt_newPassword opts \<noteq> []" "opt_userId opts \<noteq> []"
    "accounts w (opt_userId opts) = Some a" "resetPasswordCode a = Some (opt_code opts)"
    "resetPasswordCodeExpiresAt a = Some t" "now e \<le> t"
proof -
  from assms have nonempty:
    "opt_code opts \<noteq> []" "opt_newPassword opts \<noteq> []" "opt_userId opts \<noteq> []"
    by (auto simp: resetPassword_def split: if_splits)
  with assms have "findFirst_reset (opt_userId opts) (opt_code opts) (now e) w \<noteq> None"
    by (auto simp: resetPassword_def split: option.splits)
  then obtain a t where "accounts w (opt_userId opts) = Some a"
    "resetPasswordCode a = Some (opt_code opts)"
    "resetPasswordCodeExpiresAt a = Some t" "now e \<le> t"
    unfolding findFirst_reset_None_iff by blast
  with nonempty show thesis
    by (rule that)
qed

lemma addressed_None: "addressed userId None = (\<lambda>s. snd s = userId)"
  by (simp add: fun_eq_iff addressed_def)

lemma disconnectSockets_all:
  "sockets (disconnectSockets userId None w) = filter (\<lambda>s. snd s \<noteq> userId) (sockets w)"
  "emitted (disconnectSockets userId None w) =
     emitted w @ map (\<lambda>s. (fst s, AUTHENTICATE_ERROR, ''Invalid Token''))
                  (filter (\<lambda>s. snd s = userId) (sockets w))"
  by (simp_all add: disconnectSockets_def addressed_None)

text \<open>
  Claim C4, as amended. When the code, the new password and the user id given to
  \<open>resetPassword\<close> are all non-empty, the call fails with "Invalid or expired code."
  if and only if no account has that user id, a stored reset code equal to the given
  code and an expiry that is not before the clock. In particular an account whose
  stored code is equal to the given code and whose expiry lies in the past makes the
  call fail with that error. Whenever the call returns an error, the whole state, and
  with it the password of the account, is left as it was.
\<close>

theorem resetPassword_invalid_or_expired:
  assumes "opt_code opts \<noteq> []" and "opt_newPassword opts \<noteq> []" and "opt_userId opts \<noteq> []"
  shows "(fst (resetPassword e opts w) =
            Resolved (Inl (generateError ''Invalid or expired code.'')) \<longleftrightarrow>
          \<not> (\<exists>a t. accounts w (opt_userId opts) = Some a \<and>
                 resetPasswordCode a = Some (opt_code opts) \<and>
                 resetPasswordCodeExpiresAt a = Some t \<and> now e \<le> t)) \<and>
         (\<forall>a t. accounts w (opt_userId opts) = Some a \<and>
                resetPasswordCode a = Some (opt_code opts) \<and>
                resetPasswordCodeExpiresAt a = Some t \<and> t < now e \<longrightarrow>
            resetPassword e opts w =
              (Resolved (Inl (generateError ''Invalid or expired code.'')), w)) \<and>
         (\<forall>err. fst (resetPassword e opts w) = Resolved (Inl err) \<longrightarrow>
            snd (resetPassword e opts w) = w)"
proof (intro conjI allI impI)
  show "fst (resetPassword e opts w) =
          Resolved (Inl (generateError ''Invalid or expired code.'')) \<longleftrightarrow>
        \<not> (\<exists>a t. accounts w (opt_userId opts) = Some a \<and>
               resetPasswordCode a = Some (opt_code opts) \<and>
               resetPasswordCodeExpiresAt a = Some t \<and> now e \<le> t)"
  proof (cases "findFirst_reset (opt_userId opts) (opt_code opts) (now e) w")
    case None
    with assms show ?thesis
      using findFirst_reset_None_iff [of "opt_userId opts" "opt_code opts" "now e" w]
      by (simp add: resetPassword_no_match)
  next
    case (Some a)
    then have "fst (resetPassword e opts w) \<noteq>
        Resolved (Inl (generateError ''Invalid or expired code.''))"
      using assms
      by (simp add: resetPassword_def account_update_def findFirst_reset_def Let_def
          split: option.splits if_splits)
    with Some show ?thesis
      using findFirst_reset_None_iff [of "opt_userId opts" "opt_code opts" "now e" w]
      by simp
  qed
next
  fix a t
  assume "accounts w (opt_userId opts) = Some a \<and>
          resetPasswordCode a = Some (opt_code opts) \<and>
          resetPasswordCodeExpiresAt a = Some t \<and> t < now e"
  then have "findFirst_reset (opt_userId opts) (opt_code opts) (now e) w = None"
    by (simp add: findFirst_reset_def)
  with assms show "resetPassword e opts w =
      (Resolved (Inl (generateError ''Invalid or expired code.'')), w)"
    by (rule resetPassword_no_match)
next
  fix err
  assume "fst (resetPassword e opts w) = Resolved (Inl err)"
  then show "snd (resetPassword e opts w) = w"
    by (rule resetPassword_error_unchanged)
qed

theorem resetPassword_invalid_or_expired_witness:
  "opt_code opts0 \<noteq> [] \<and> opt_newPassword opts0 \<noteq> [] \<and> opt_userId opts0 \<noteq> [] \<and>
   accounts world0 (opt_userId opts0) = Some account0 \<and>
   resetPasswordCode account0 = Some (opt_code opts0) \<and>
   resetPasswordCodeExpiresAt account0 = Some 5000 \<and> 5000 < now env_late \<and>
   resetPassword env_late opts0 world0 =
     (Resolved (Inl (generateError ''Invalid or expired code.'')), world0) \<and>
   accounts (snd (resetPassword env_late opts0 world0)) ''u1'' = Some account0 \<and>
   password account0 = ''old-hash''"
proof -
  have h: "opt_code opts0 \<noteq> []" "opt_newPassword opts0 \<noteq> []" "opt_userId opts0 \<noteq> []"
    by (simp_all add: opts0_def)
  have m: "accounts world0 (opt_userId opts0) = Some account0"
    "resetPasswordCode account0 = Some (opt_code opts0)"
    "resetPasswordCodeExpiresAt account0 = Some 5000" "5000 < now env_late"
    "password account0 = ''old-hash''"
    by (simp_all add: opts0_def world0_def account0_def env_late_def env0_def)
  from resetPassword_invalid_or_expired [OF h, of env_late world0]
  have "resetPassword env_late opts0 world0 =
      (Resolved (Inl (generateError ''Invalid or expired code.'')), world0)"
    using m by blast
  with h m show ?thesis
    by (simp add: opts0_def)
qed

text \<open>
  The claim without the three preconditions fails: with an empty new password and a
  code that no account holds, the call fails with "Invalid password.".
\<close>

theorem resetPassword_invalid_or_expired_counterexample:
  "accounts world0 (opt_userId opts_empty_password) = Some account0 \<and>
   resetPasswordCode account0 \<noteq> Some (opt_code opts_empty_password) \<and>
   resetPassword env0 opts_empty_password world0 =
     (Resolved (Inl (generateError ''Invalid password.'')), world0) \<and>
   fst (resetPassword env0 opts_empty_password world0) \<noteq>
     Resolved (Inl (generateError ''Invalid or expired code.''))"
  by (simp add: resetPassword_def opts_empty_password_def world0_def account0_def
      generateError_def)

text \<open>
  Claim C5. When \<open>resetPassword\<close> succeeds, that is, returns a token, the account
  row holds the hash of the trimmed new password, a password version one above the
  previous one, and neither reset code nor expiry; the user's entry is gone from the read
  cache; the token returned is the one generated for the user and the new password
  version; and every live socket of the user has been sent the authentication error
  and disconnected, the sockets of other users being kept.
\<close>

theorem resetPassword_success:
  assumes "fst (resetPassword e opts w) = Resolved (Inr newToken)"
    and "truthy_string newToken"
    and "w' = snd (resetPassword e opts w)"
  shows "\<exists>a. accounts w (opt_userId opts) = Some a \<and>
           accounts w' = (accounts w)(opt_userId opts \<mapsto>
             a\<lparr>password := bcrypt_hash e (trim (opt_newPassword opts)),
               passwordVersion := passwordVersion a + 1,
               resetPasswordCode := None, resetPasswordCodeExpiresAt := None\<rparr>) \<and>
           userCache w' = userCache w |` (- {opt_userId opts}) \<and>
           newToken = generateToken e (opt_userId opts) (passwordVersion a + 1) \<and>
           sockets w' = filter (\<lambda>s. snd s \<noteq> opt_userId opts) (sockets w) \<and>
           emitted w' = emitted w @
             map (\<lambda>s. (fst s, AUTHENTICATE_ERROR, ''Invalid Token''))
               (filter (\<lambda>s. snd s = opt_userId opts) (sockets w))"
proof -
  from assms(1) obtain a t where m:
    "opt_code opts \<noteq> []" "opt_newPassword opts \<noteq> []" "opt_userId opts \<noteq> []"
    "accounts w (opt_userId opts) = Some a" "resetPasswordCode a = Some (opt_code opts)"
    "resetPasswordCodeExpiresAt a = Some t" "now e \<le> t"
    by (rule resetPassword_value_cases)
  note r = resetPassword_match [OF m]
  from assms(1) have tok: "newToken = generateToken e (opt_userId opts) (passwordVersion a + 1)"
    by (simp add: r)
  with assms(2) have "truthy_string (generateToken e (opt_userId opts) (passwordVersion a + 1))"
    by simp
  then have "w' = disconnectSockets (opt_userId opts) None
      (w\<lparr>accounts := (accounts w)(opt_userId opts \<mapsto>
            a\<lparr>password := bcrypt_hash e (trim (opt_newPassword opts)),
              passwordVersion := passwordVersion a + 1,
              resetPasswordCode := None, resetPasswordCodeExpiresAt := None\<rparr>),
          userCache := userCache w |` (- {opt_userId opts})\<rparr>)"
    by (simp add: assms(3) r)
  then show ?thesis
    using m(4) tok by (simp add: disconnectSockets_all) (simp add: disconnectSockets_def)
qed

theorem resetPassword_success_witness:
  "fst (resetPassword env0 opts0 world0) = Resolved (Inr (Some ''u1.v4'')) \<and>
   truthy_string (Some ''u1.v4'') \<and>
   accounts (snd (resetPassword env0 opts0 world0)) ''u1'' =
     Some (account0\<lparr>password := ''bcrypt:hunter2'', passwordVersion := 4,
            resetPasswordCode := None, resetPasswordCodeExpiresAt := None\<rparr>) \<and>
   userCache (snd (resetPassword env0 opts0 world0)) ''u1'' = None \<and>
   sockets (snd (resetPassword env0 opts0 world0)) = [(''s2'', ''u2'')] \<and>
   emitted (snd (resetPassword env0 opts0 world0)) =
     [(''s1'', AUTHENTICATE_ERROR, ''Invalid Token''), (''s3'', AUTHENTICATE_ERROR, ''Invalid Token'')]"
proof -
  have h: "opt_code opts0 \<noteq> []" "opt_newPassword opts0 \<noteq> []" "opt_userId opts0 \<noteq> []"
    "accounts world0 (opt_userId opts0) = Some account0"
    "resetPasswordCode account0 = Some (opt_code opts0)"
    "resetPasswordCodeExpiresAt account0 = Some 5000" "now env0 \<le> 5000"
    by (simp_all add: opts0_def world0_def account0_def env0_def)
  have t: "generateToken env0 (opt_userId opts0) (passwordVersion account0 + 1) = Some ''u1.v4''"
    by (simp add: env0_def opts0_def account0_def)
  have f: "fst (resetPassword env0 opts0 world0) = Resolved (Inr (Some ''u1.v4''))"
    by (simp add: resetPassword_match [OF h] t)
  have "trim (opt_newPassword opts0) = ''hunter2''"
    by (simp add: opts0_def trim_def js_whitespace_def)
  then show ?thesis
    using resetPassword_success [OF f _ refl] f h(4)
    by (simp add: opts0_def) (simp add: world0_def env0_def account0_def)
qed

lemma resetPassword_invalid_password:
  "opt_code opts \<noteq> [] \<Longrightarrow>
   fst (resetPassword e opts w) = Resolved (Inl (generateError ''Invalid password.''))
   \<longleftrightarrow> opt_newPassword opts = []"
  by (auto simp: resetPassword_def generateError_def Let_def
      split: option.splits prod.splits)

lemma trim_padded:
  assumes "\<forall>c\<in>set pre. js_whitespace c" and "\<forall>c\<in>set post. js_whitespace c"
    and "core \<noteq> []" and "\<not> js_whitespace (hd core)" and "\<not> js_whitespace (last core)"
  shows "trim (pre @ core @ post) = core"
proof -
  from assms(3,4) have front: "dropWhile js_whitespace (core @ post) = core @ post"
    by (cases core) simp_all
  from assms(3,5) have "\<not> js_whitespace (hd (rev core))"
    by (simp add: hd_rev)
  with assms(3) have rear: "dropWhile js_whitespace (rev core) = rev core"
    by (cases "rev core") simp_all
  have "dropWhile js_whitespace (pre @ core @ post) = dropWhile js_whitespace (core @ post)"
    using assms(1) by (intro dropWhile_append2) simp
  with front have head: "dropWhile js_whitespace (pre @ core @ post) = core @ post"
    by simp
  have "dropWhile js_whitespace (rev post @ rev core) = dropWhile js_whitespace (rev core)"
    using assms(2) by (intro dropWhile_append2) simp
  with rear have "dropWhile js_whitespace (rev (core @ post)) = rev core"
    by (simp only: rev_append)
  with head show ?thesis
    by (simp only: trim_def rev_rev_ident)
qed

lemma resetPassword_stored_row:
  assumes "opt_code opts \<noteq> []" "opt_newPassword opts \<noteq> []" "opt_userId opts \<noteq> []"
    and "accounts w (opt_userId opts) = Some a"
    and "resetPasswordCode a = Some (opt_code opts)"
    and "resetPasswordCodeExpiresAt a = Some t" and "now e \<le> t"
  shows "accounts (snd (resetPassword e opts w)) (opt_userId opts) =
     Some (a\<lparr>password := bcrypt_hash e (trim (opt_newPassword opts)),
             passwordVersion := passwordVersion a + 1,
             resetPasswordCode := None, resetPasswordCodeExpiresAt := None\<rparr>)"
  using resetPassword_match [OF assms] by (simp add: disconnectSockets_def)

text \<open>
  Claim C10. With a non-empty code and user id and a code that matches an unexpired
  reset code of the account, every non-empty new password is accepted: the call returns
  a value, and the password stored on the account is the hash of the trimmed new
  password. A new password made of white space only is not empty, passes the
  precondition and trims to the empty string, so that the hash of the empty string is
  stored. A new password that is a core, beginning and ending with characters that are
  no white space, between a white space prefix and suffix trims to that core, whose
  hash is stored. The precondition on the new password rejects the empty string only:
  given a non-empty code, the call fails with "Invalid password." exactly when the
  new password is empty.
\<close>

theorem resetPassword_whitespace_password:
  assumes "opt_newPassword opts \<noteq> []"
    and "opt_code opts \<noteq> []" and "opt_userId opts \<noteq> []"
    and "accounts w (opt_userId opts) = Some a"
    and "resetPasswordCode a = Some (opt_code opts)"
    and "resetPasswordCodeExpiresAt a = Some t" and "now e \<le> t"
  shows "(\<exists>newToken. fst (resetPassword e opts w) = Resolved (Inr newToken)) \<and>
         accounts (snd (resetPassword e opts w)) (opt_userId opts) =
           Some (a\<lparr>password := bcrypt_hash e (trim (opt_newPassword opts)),
                   passwordVersion := passwordVersion a + 1,
                   resetPasswordCode := None, resetPasswordCodeExpiresAt := None\<rparr>) \<and>
         ((\<forall>c\<in>set (opt_newPassword opts). js_whitespace c) \<longrightarrow>
            trim (opt_newPassword opts) = [] \<and>
            (\<exists>a'. accounts (snd (resetPassword e opts w)) (opt_userId opts) = Some a' \<and>
                  password a' = bcrypt_hash e [])) \<and>
         (\<forall>pre core post.
            opt_newPassword opts = pre @ core @ post \<and>
            (\<forall>c\<in>set pre. js_whitespace c) \<and> (\<forall>c\<in>set post. js_whitespace c) \<and>
            core \<noteq> [] \<and> \<not> js_whitespace (hd core) \<and> \<not> js_whitespace (last core) \<longrightarrow>
            trim (opt_newPassword opts) = core \<and>
            (\<exists>a'. accounts (snd (resetPassword e opts w)) (opt_userId opts) = Some a' \<and>
                  password a' = bcrypt_hash e core)) \<and>
         (\<forall>opts'. opt_code opts' \<noteq> [] \<longrightarrow>
            (fst (resetPassword e opts' w) = Resolved (Inl (generateError ''Invalid password.''))
             \<longleftrightarrow> opt_newPassword opts' = []))"
proof (intro conjI allI impI)
  note row = resetPassword_stored_row [OF assms(2,1,3,4,5,6,7)]
  show "\<exists>newToken. fst (resetPassword e opts w) = Resolved (Inr newToken)"
    using resetPassword_match [OF assms(2,1,3,4,5,6,7)] by simp
  show "accounts (snd (resetPassword e opts w)) (opt_userId opts) =
      Some (a\<lparr>password := bcrypt_hash e (trim (opt_newPassword opts)),
              passwordVersion := passwordVersion a + 1,
              resetPasswordCode := None, resetPasswordCodeExpiresAt := None\<rparr>)"
    by (rule row)
  {
    assume "\<forall>c\<in>set (opt_newPassword opts). js_whitespace c"
    then show blank: "trim (opt_newPassword opts) = []"
      by (rule trim_whitespace)
    show "\<exists>a'. accounts (snd (resetPassword e opts w)) (opt_userId opts) = Some a' \<and>
          password a' = bcrypt_hash e []"
      unfolding row blank by simp
  }
  {
    fix pre core post
    assume "opt_newPassword opts = pre @ core @ post \<and>
        (\<forall>c\<in>set pre. js_whitespace c) \<and> (\<forall>c\<in>set post. js_whitespace c) \<and>
        core \<noteq> [] \<and> \<not> js_whitespace (hd core) \<and> \<not> js_whitespace (last core)"
    then have parts: "opt_newPassword opts = pre @ core @ post"
      "\<forall>c\<in>set pre. js_whitespace c" "\<forall>c\<in>set post. js_whitespace c"
      "core \<noteq> []" "\<not> js_whitespace (hd core)" "\<not> js_whitespace (last core)"
      by blast+
    show padded: "trim (opt_newPassword opts) = core"
      unfolding parts(1) using parts(2-6) by (rule trim_padded)
    show "\<exists>a'. accounts (snd (resetPassword e opts w)) (opt_userId opts) = Some a' \<and>
          password a' = bcrypt_hash e core"
      unfolding row padded by simp
  }
  {
    fix opts' :: reset_opts
    assume "opt_code opts' \<noteq> []"
    then show "fst (resetPassword e opts' w) =
        Resolved (Inl (generateError ''Invalid password.'')) \<longleftrightarrow> opt_newPassword opts' = []"
      by (rule resetPassword_invalid_password)
  }
qed

theorem resetPassword_whitespace_password_witness:
  "opt_newPassword opts_blank_password = ''  '' \<and>
   js_whitespace CHR '' '' \<and> trim ''  '' = [] \<and>
   (\<exists>newToken. fst (resetPassword env0 opts_blank_password world0) = Resolved (Inr newToken)) \<and>
   (\<exists>a'. accounts (snd (resetPassword env0 opts_blank_password world0)) ''u1'' = Some a' \<and>
         password a' = ''bcrypt:'') \<and>
   opt_newPassword opts_padded_password = '' '' @ ''hunter 2'' @ ''  '' \<and>
   trim '' hunter 2  '' = ''hunter 2'' \<and>
   (\<exists>a'. accounts (snd (resetPassword env0 opts_padded_password world0)) ''u1'' = Some a' \<and>
         password a' = ''bcrypt:hunter 2'') \<and>
   accounts (snd (resetPassword env0 opts0 world0)) ''u1'' =
     Some (account0\<lparr>password := ''bcrypt:hunter2'', passwordVersion := 4,
            resetPasswordCode := None, resetPasswordCodeExpiresAt := None\<rparr>) \<and>
   opt_code opts_empty_password \<noteq> [] \<and> opt_newPassword opts_empty_password = [] \<and>
   fst (resetPassword env0 opts_empty_password world0) =
     Resolved (Inl (generateError ''Invalid password.''))"
proof -
  have blank: "opt_newPassword opts_blank_password \<noteq> []"
    "opt_code opts_blank_password \<noteq> []" "opt_userId opts_blank_password \<noteq> []"
    "accounts world0 (opt_userId opts_blank_password) = Some account0"
    "resetPasswordCode account0 = Some (opt_code opts_blank_password)"
    "resetPasswordCodeExpiresAt account0 = Some 5000" "now env0 \<le> 5000"
    by (simp_all add: opts_blank_password_def opts0_def world0_def account0_def env0_def)
  have padded: "opt_newPassword opts_padded_password \<noteq> []"
    "opt_code opts_padded_password \<noteq> []" "opt_userId opts_padded_password \<noteq> []"
    "accounts world0 (opt_userId opts_padded_password) = Some account0"
    "resetPasswordCode account0 = Some (opt_code opts_padded_password)"
    "resetPasswordCodeExpiresAt account0 = Some 5000" "now env0 \<le> 5000"
    by (simp_all add: opts_padded_password_def opts0_def world0_def account0_def env0_def)
  have plain: "opt_newPassword opts0 \<noteq> []"
    "opt_code opts0 \<noteq> []" "opt_userId opts0 \<noteq> []"
    "accounts world0 (opt_userId opts0) = Some account0"
    "resetPasswordCode account0 = Some (opt_code opts0)"
    "resetPasswordCodeExpiresAt account0 = Some 5000" "now env0 \<le> 5000"
    by (simp_all add: opts0_def world0_def account0_def env0_def)
  have spaces: "\<forall>c\<in>set (opt_newPassword opts_blank_password). js_whitespace c"
    by (simp add: opts_blank_password_def js_whitespace_def)
  have parts: "opt_newPassword opts_padded_password = '' '' @ ''hunter 2'' @ ''  '' \<and>
      (\<forall>c\<in>set '' ''. js_whitespace c) \<and> (\<forall>c\<in>set ''  ''. js_whitespace c) \<and>
      ''hunter 2'' \<noteq> [] \<and> \<not> js_whitespace (hd ''hunter 2'') \<and>
      \<not> js_whitespace (last ''hunter 2'')"
    by (simp add: opts_padded_password_def js_whitespace_def)
  have empty: "opt_code opts_empty_password \<noteq> []" "opt_newPassword opts_empty_password = []"
    by (simp_all add: opts_empty_password_def)
  note on_blank = resetPassword_whitespace_password [OF blank]
  note on_padded = resetPassword_whitespace_password [OF padded]
  note on_plain = resetPassword_whitespace_password [OF plain]
  note accepted = on_blank [THEN conjunct1]
  note blank_stored = on_blank [THEN conjunct2, THEN conjunct2, THEN conjunct1, THEN mp, OF spaces]
  note padded_stored = on_padded [THEN conjunct2, THEN conjunct2, THEN conjunct2, THEN conjunct1,
      THEN spec, THEN spec, THEN spec, THEN mp, OF parts]
  note plain_stored = on_plain [THEN conjunct2, THEN conjunct1]
  note rejected = on_blank [THEN conjunct2, THEN conjunct2, THEN conjunct2, THEN conjunct2,
      THEN spec, THEN mp, OF empty(1)]
  have evaluated: "bcrypt_hash env0 [] = ''bcrypt:''"
    "bcrypt_hash env0 ''hunter 2'' = ''bcrypt:hunter 2''"
    "bcrypt_hash env0 (trim (opt_newPassword opts0)) = ''bcrypt:hunter2''"
    "passwordVersion account0 + 1 = 4" "js_whitespace CHR '' ''"
    "opt_userId opts_blank_password = ''u1''" "opt_userId opts_padded_password = ''u1''"
    "opt_userId opts0 = ''u1''"
    "opt_newPassword opts_blank_password = ''  ''"
    "opt_newPassword opts_padded_password = '' hunter 2  ''"
    by (simp_all add: env0_def account0_def opts0_def opts_blank_password_def
        opts_padded_password_def trim_def js_whitespace_def)
  show ?thesis
    using accepted blank_stored padded_stored plain_stored rejected empty
    by (simp add: evaluated)
qed

subsection \<open>Account deletion\<close>

lemma deleteAccountFromDatabase_commit:
  "users w userId = Some u \<Longrightarrow>
   deleteAccountFromDatabase e userId isBot w =
     Some (w\<lparr>follower := filter (\<lambda>r. \<not> (fst r = userId \<or> snd r = userId)) (follower w),
             userProfile := filter (\<lambda>r. fst r \<noteq> userId) (userProfile w),
             serverChannelLastSeen := filter (\<lambda>r. fst r \<noteq> userId) (serverChannelLastSeen w),
             users := (users w)(userId \<mapsto>
               u\<lparr>avatar := None, banner := None, badges := 0, customStatus := None,
                 username := ''Deleted '' @ (if truthy_bool isBot then ''Bot'' else ''User'')
                             @ '' '' @ generateTag e\<rparr>),
             accounts := (accounts w)(userId := None),
             userDevice := filter (\<lambda>r. fst r \<noteq> userId) (userDevice w),
             userConnection := filter (\<lambda>r. fst r \<noteq> userId) (userConnection w),
             chatNotice := filter (\<lambda>r. fst r \<noteq> userId) (chatNotice w),
             userNotice := filter (\<lambda>r. fst r \<noteq> userId) (userNotice w)\<rparr>)"
  by (simp add: deleteAccountFromDatabase_def user_update_def)

lemma deleteAccount_blocked_servers:
  "users w userId = Some u \<Longrightarrow> \<not> truthy_bool isBot \<Longrightarrow> servers u \<noteq> [] \<Longrightarrow>
   deleteAccount e userId isBot w =
     (Resolved (Inl (generateError
        ''You must leave all servers before deleting your account.'')), w)"
  by (simp add: deleteAccount_def)

lemma deleteAccount_blocked_applications:
  "users w userId = Some u \<Longrightarrow> \<not> truthy_bool isBot \<Longrightarrow> servers u = [] \<Longrightarrow>
   accounts w userId = Some a \<Longrightarrow> applications a \<noteq> [] \<Longrightarrow>
   deleteAccount e userId isBot w =
     (Resolved (Inl (generateError
        ''You must delete all applications before deleting your account.'')), w)"
  by (simp add: deleteAccount_def)

lemma deleteAccount_proceeds:
  assumes "users w userId = Some u"
    and "truthy_bool isBot \<or>
         (servers u = [] \<and> (accounts w userId = None \<or>
            (\<exists>a. accounts w userId = Some a \<and> applications a = [])))"
  shows "deleteAccount e userId isBot w =
     (Resolved (Inr True),
      disconnectSockets userId None
        (removeUserCacheByUserIds [userId] (the (deleteAccountFromDatabase e userId isBot w))))"
  using assms deleteAccountFromDatabase_commit [OF assms(1), of e isBot]
  by (auto simp: deleteAccount_def)

text \<open>
  Claim C7. For an existing user and a caller that is not a bot, \<open>deleteAccount\<close>
  fails with "You must leave all servers before deleting your account." when the user
  is a member of a server, and with "You must delete all applications before deleting
  your account." when the user is in no server and the account has an application;
  either way the state is left as it was. When the caller is a bot, whatever the
  memberships and applications, or when the user has neither, the call returns
  \<open>true\<close> and the state is the one reached by the transaction followed by the cache
  invalidation and the disconnection: the Follower rows naming the user on either side,
  the rows of the user in UserProfile, ServerChannelLastSeen, UserDevice,
  UserConnection, ChatNotice and UserNotice, and the Account row are gone; the User row
  stays, with avatar, banner and custom status null, badges 0 and the user name
  "Deleted User <tag>", or "Deleted Bot <tag>" for a bot; the user's entry is gone from
  the read cache; the user's sockets have been sent the authentication error and
  disconnected. The transaction of a user that does not exist commits nothing.
\<close>

theorem deleteAccount_behaviour:
  assumes "users w userId = Some u"
  shows "(\<not> truthy_bool isBot \<and> servers u \<noteq> [] \<longrightarrow>
            deleteAccount e userId isBot w =
              (Resolved (Inl (generateError
                 ''You must leave all servers before deleting your account.'')), w)) \<and>
         (\<not> truthy_bool isBot \<and> servers u = [] \<and>
            (\<exists>a. accounts w userId = Some a \<and> applications a \<noteq> []) \<longrightarrow>
            deleteAccount e userId isBot w =
              (Resolved (Inl (generateError
                 ''You must delete all applications before deleting your account.'')), w)) \<and>
         (truthy_bool isBot \<or>
            (servers u = [] \<and> (accounts w userId = None \<or>
               (\<exists>a. accounts w userId = Some a \<and> applications a = []))) \<longrightarrow>
            deleteAccount e userId isBot w =
              (Resolved (Inr True),
               w\<lparr>follower := filter (\<lambda>r. fst r \<noteq> userId \<and> snd r \<noteq> userId) (follower w),
                 userProfile := filter (\<lambda>r. fst r \<noteq> userId) (userProfile w),
                 serverChannelLastSeen :=
                   filter (\<lambda>r. fst r \<noteq> userId) (serverChannelLastSeen w),
                 users := (users w)(userId \<mapsto>
                   u\<lparr>avatar := None, banner := None, badges := 0, customStatus := None,
                     username := ''Deleted '' @ (if truthy_bool isBot then ''Bot'' else ''User'')
                                 @ '' '' @ generateTag e\<rparr>),
                 accounts := (accounts w)(userId := None),
                 userDevice := filter (\<lambda>r. fst r \<noteq> userId) (userDevice w),
                 userConnection := filter (\<lambda>r. fst r \<noteq> userId) (userConnection w),
                 chatNotice := filter (\<lambda>r. fst r \<noteq> userId) (chatNotice w),
                 userNotice := filter (\<lambda>r. fst r \<noteq> userId) (userNotice w),
                 userCache := userCache w |` (- {userId}),
                 emitted := emitted w @
                   map (\<lambda>s. (fst s, AUTHENTICATE_ERROR, ''Invalid Token''))
                     (filter (\<lambda>s. snd s = userId) (sockets w)),
                 sockets := filter (\<lambda>s. snd s \<noteq> userId) (sockets w)\<rparr>)) \<and>
         deleteAccountFromDatabase e userId isBot (w\<lparr>users := (users w)(userId := None)\<rparr>) = None"
proof (intro conjI impI)
  assume "\<not> truthy_bool isBot \<and> servers u \<noteq> []"
  with assms show "deleteAccount e userId isBot w =
      (Resolved (Inl (generateError
         ''You must leave all servers before deleting your account.'')), w)"
    by (simp add: deleteAccount_blocked_servers)
next
  assume "\<not> truthy_bool isBot \<and> servers u = [] \<and>
      (\<exists>a. accounts w userId = Some a \<and> applications a \<noteq> [])"
  with assms show "deleteAccount e userId isBot w =
      (Resolved (Inl (generateError
         ''You must delete all applications before deleting your account.'')), w)"
    by (auto simp: deleteAccount_blocked_applications)
next
  assume "truthy_bool isBot \<or>
      (servers u = [] \<and> (accounts w userId = None \<or>
         (\<exists>a. accounts w userId = Some a \<and> applications a = [])))"
  note proceeds = deleteAccount_proceeds [OF assms this, of e]
  show "deleteAccount e userId isBot w =
      (Resolved (Inr True),
       w\<lparr>follower := filter (\<lambda>r. fst r \<noteq> userId \<and> snd r \<noteq> userId) (follower w),
         userProfile := filter (\<lambda>r. fst r \<noteq> userId) (userProfile w),
         serverChannelLastSeen :=
           filter (\<lambda>r. fst r \<noteq> userId) (serverChannelLastSeen w),
         users := (users w)(userId \<mapsto>
           u\<lparr>avatar := None, banner := None, badges := 0, customStatus := None,
             username := ''Deleted '' @ (if truthy_bool isBot then ''Bot'' else ''User'')
                         @ '' '' @ generateTag e\<rparr>),
         accounts := (accounts w)(userId := None),
         userDevice := filter (\<lambda>r. fst r \<noteq> userId) (userDevice w),
         userConnection := filter (\<lambda>r. fst r \<noteq> userId) (userConnection w),
         chatNotice := filter (\<lambda>r. fst r \<noteq> userId) (chatNotice w),
         userNotice := filter (\<lambda>r. fst r \<noteq> userId) (userNotice w),
         userCache := userCache w |` (- {userId}),
         emitted := emitted w @
           map (\<lambda>s. (fst s, AUTHENTICATE_ERROR, ''Invalid Token''))
             (filter (\<lambda>s. snd s = userId) (sockets w)),
         sockets := filter (\<lambda>s. snd s \<noteq> userId) (sockets w)\<rparr>)"
    unfolding proceeds
    by (simp add: deleteAccountFromDatabase_commit [OF assms] removeUserCacheByUserIds_def
        disconnectSockets_def addressed_None)
next
  show "deleteAccountFromDatabase e userId isBot (w\<lparr>users := (users w)(userId := None)\<rparr>) = None"
    by (simp add: deleteAccountFromDatabase_def user_update_def)
qed

theorem deleteAccount_behaviour_witness:
  "users world_member ''u1'' = Some (user0\<lparr>servers := [''srv1'']\<rparr>) \<and>
   deleteAccount env0 ''u1'' None world_member =
     (Resolved (Inl (generateError
        ''You must leave all servers before deleting your account.'')), world_member) \<and>
   users world_application ''u1'' = Some user0 \<and> servers user0 = [] \<and>
   accounts world_application ''u1'' = Some (account0\<lparr>applications := [''app1'']\<rparr>) \<and>
   deleteAccount env0 ''u1'' (Some False) world_application =
     (Resolved (Inl (generateError
        ''You must delete all applications before deleting your account.'')),
      world_application) \<and>
   users world0 ''u1'' = Some user0 \<and> accounts world0 ''u1'' = Some account0 \<and>
   applications account0 = [] \<and>
   fst (deleteAccount env0 ''u1'' None world0) = Resolved (Inr True) \<and>
   users (snd (deleteAccount env0 ''u1'' None world0)) ''u1'' =
     Some \<lparr>username = ''Deleted User ab12'', avatar = None, banner = None, badges = 0,
            customStatus = None, servers = []\<rparr> \<and>
   accounts (snd (deleteAccount env0 ''u1'' None world0)) ''u1'' = None \<and>
   follower (snd (deleteAccount env0 ''u1'' None world0)) = [(''u2'', ''u3'')] \<and>
   userProfile (snd (deleteAccount env0 ''u1'' None world0)) = [(''u2'', ''bio'')] \<and>
   serverChannelLastSeen (snd (deleteAccount env0 ''u1'' None world0)) = [] \<and>
   userDevice (snd (deleteAccount env0 ''u1'' None world0)) = [(''u2'', ''d2'')] \<and>
   userConnection (snd (deleteAccount env0 ''u1'' None world0)) = [] \<and>
   chatNotice (snd (deleteAccount env0 ''u1'' None world0)) = [] \<and>
   userNotice (snd (deleteAccount env0 ''u1'' None world0)) = [(''u3'', ''n3'')] \<and>
   userCache (snd (deleteAccount env0 ''u1'' None world0)) ''u1'' = None \<and>
   userCache (snd (deleteAccount env0 ''u1'' None world0)) ''u2'' = Some ''cached'' \<and>
   sockets (snd (deleteAccount env0 ''u1'' None world0)) = [(''s2'', ''u2'')] \<and>
   fst (deleteAccount env0 ''u1'' (Some True) world_member) = Resolved (Inr True) \<and>
   users (snd (deleteAccount env0 ''u1'' (Some True) world_member)) ''u1'' =
     Some \<lparr>username = ''Deleted Bot ab12'', avatar = None, banner = None, badges = 0,
            customStatus = None, servers = [''srv1'']\<rparr>"
proof -
  have member: "users world_member ''u1'' = Some (user0\<lparr>servers := [''srv1'']\<rparr>)"
    by (simp add: world_member_def)
  have application: "users world_application ''u1'' = Some user0"
    by (simp add: world_application_def world0_def)
  have plain: "users world0 ''u1'' = Some user0"
    by (simp add: world0_def)
  show ?thesis
    using deleteAccount_behaviour [OF member, of None env0]
      deleteAccount_behaviour [OF application, of "Some False" env0]
      deleteAccount_behaviour [OF plain, of None env0]
      deleteAccount_behaviour [OF member, of "Some True" env0]
    by (simp add: world_member_def world_application_def world0_def user0_def account0_def
        env0_def)
qed

section \<open>Properties of the message route\<close>

lemma content_errors_iff:
  "content_errors (Some s) = [] \<longleftrightarrow> 1 \<le> length s \<and> length s \<le> 2000"
  by (simp add: content_errors_def isLength_def)

lemma route_invalid_content:
  "content (body req) = Some s \<Longrightarrow> content_errors (Some s) \<noteq> [] \<Longrightarrow>
   route env req =
     (Status 400 (generateError ''Content length must be between 1 and 2000 characters.''), [])"
  by (simp add: route_def customExpressValidatorResult_def content_errors_def split: if_splits)

lemma route_valid_content:
  "content (body req) = Some s \<Longrightarrow> content_errors (Some s) = [] \<Longrightarrow>
   fst (route env req) \<noteq>
     Status 400 (generateError ''Content length must be between 1 and 2000 characters.'')"
  by (auto simp: route_def customExpressValidatorResult_def socketId_errors_def
      generateError_def send_message_def attach_and_send_def Let_def
      split: option.splits if_splits list.splits prod.splits upload_error.splits)

lemma validation_passes:
  "content_errors (content (body req)) = [] \<Longrightarrow> socketId_errors (socketId (body req)) = [] \<Longrightarrow>
   customExpressValidatorResult req = None"
  by (simp add: customExpressValidatorResult_def)

text \<open>
  Claim C9. A content of exactly 1 or exactly 2000 characters is accepted: its
  chain records no error, validation passes when the socket id is valid too, and the
  route does not answer with the content-length error. A content of length 0 or 2001 is
  rejected: the route answers 400 with "Content length must be between 1 and 2000
  characters." and calls neither collaborator.
\<close>

theorem content_length_boundary:
  assumes "content (body req) = Some s"
  shows "(length s = 1 \<or> length s = 2000 \<longrightarrow>
            content_errors (Some s) = [] \<and>
            (socketId_errors (socketId (body req)) = [] \<longrightarrow>
               customExpressValidatorResult req = None) \<and>
            fst (route env req) \<noteq>
              Status 400 (generateError
                ''Content length must be between 1 and 2000 characters.'')) \<and>
         (length s = 0 \<or> length s = 2001 \<longrightarrow>
            route env req =
              (Status 400 (generateError
                 ''Content length must be between 1 and 2000 characters.''), []))"
proof (intro conjI impI)
  assume "length s = 1 \<or> length s = 2000"
  then show ok: "content_errors (Some s) = []"
    by (auto simp: content_errors_iff)
  from assms ok show "fst (route env req) \<noteq>
      Status 400 (generateError ''Content length must be between 1 and 2000 characters.'')"
    by (rule route_valid_content)
  assume "socketId_errors (socketId (body req)) = []"
  with assms ok show "customExpressValidatorResult req = None"
    by (simp add: validation_passes)
next
  assume "length s = 0 \<or> length s = 2001"
  then have "content_errors (Some s) \<noteq> []"
    by (auto simp: content_errors_iff)
  with assms show "route env req =
      (Status 400 (generateError ''Content length must be between 1 and 2000 characters.''), [])"
    by (rule route_invalid_content)
qed

theorem content_length_boundary_witness:
  "length (replicate 1 CHR ''a'') = 1 \<and> length (replicate 2000 CHR ''a'') = 2000 \<and>
   length (replicate 0 CHR ''a'') = 0 \<and> length (replicate 2001 CHR ''a'') = 2001 \<and>
   customExpressValidatorResult (request_of_length 1) = None \<and>
   customExpressValidatorResult (request_of_length 2000) = None \<and>
   route route_env0 (request_of_length 0) =
     (Status 400 (generateError ''Content length must be between 1 and 2000 characters.''), []) \<and>
   route route_env0 (request_of_length 2001) =
     (Status 400 (generateError ''Content length must be between 1 and 2000 characters.''), [])"
proof -
  have c: "content (body (request_of_length n)) = Some (replicate n CHR ''a'')"
    "socketId_errors (socketId (body (request_of_length n))) = []" for n
    by (simp_all add: request_of_length_def socketId_errors_def)
  show ?thesis
    using content_length_boundary [OF c(1), of 1 route_env0]
      content_length_boundary [OF c(1), of 2000 route_env0]
      content_length_boundary [OF c(1), of 0 route_env0]
      content_length_boundary [OF c(1), of 2001 route_env0]
    by (simp add: c(2))
qed

lemma falsy_trimmed_content:
  "\<not> truthy_string (map_option trim c) \<longleftrightarrow> (c = None \<or> (\<exists>s. c = Some s \<and> trim s = []))"
  by (cases c) simp_all

lemma route_checks_passed:
  assumes "customExpressValidatorResult req = None"
    and "inbox (channelCache req) = None \<or> (\<exists>i. inbox (channelCache req) = Some i \<and> canMessage i)"
    and "channel_type (channelCache req) \<in> set (TextChannelTypes env)"
  shows "route env req =
     (if \<not> truthy_string (map_option trim (content (body req))) \<and> request_file req = None
      then (Status 400 (generateError ''content or attachment is required.''), [])
      else (case request_file req of
              None \<Rightarrow> send_message env req None []
            | Some f \<Rightarrow>
                (let filename = (case fileInfo req of None \<Rightarrow> [] | Some fi \<Rightarrow> info_filename fi);
                     calls = [UploadImage f filename (channel_id (channelCache req))];
                     (uploadedImage, err) =
                       uploadImage env f filename (channel_id (channelCache req))
                 in case err of
                      None \<Rightarrow> attach_and_send env req uploadedImage calls
                    | Some (Reason reason) \<Rightarrow>
                        if reason = [] then attach_and_send env req uploadedImage calls
                        else (Status 403 (generateError reason), calls)
                    | Some (Typed t) \<Rightarrow>
                        if t = ''INVALID_IMAGE''
                        then (Status 403 (generateError
                                ''You can only upload images for now.''), calls)
                        else (Status 403 (generateError
                                (''An unknown error has occurred ('' @ t @ '')'')), calls))))"
  using assms by (auto simp: route_def)

text \<open>
  Claim C1, as amended. For a request that passes the validation of its body, on a
  channel whose type is one of the text channel types and that is not an inbox whose
  recipient refuses messages, the route answers 400 with "content or attachment is
  required." if and only if the content is absent or trims to the empty string and
  no file is attached; in that case it calls neither collaborator.
\<close>

theorem content_or_attachment_required:
  assumes "customExpressValidatorResult req = None"
    and "inbox (channelCache req) = None \<or> (\<exists>i. inbox (channelCache req) = Some i \<and> canMessage i)"
    and "channel_type (channelCache req) \<in> set (TextChannelTypes env)"
  shows "(fst (route env req) = Status 400 (generateError ''content or attachment is required.'')
          \<longleftrightarrow> (content (body req) = None \<or> (\<exists>s. content (body req) = Some s \<and> trim s = []))
               \<and> request_file req = None) \<and>
         (fst (route env req) = Status 400 (generateError ''content or attachment is required.'')
          \<longrightarrow> snd (route env req) = [])"
  unfolding falsy_trimmed_content [symmetric] route_checks_passed [OF assms]
  by (auto simp: generateError_def send_message_def attach_and_send_def Let_def
      split: option.splits prod.splits upload_error.splits)

theorem content_or_attachment_required_witness:
  "customExpressValidatorResult request_blank = None \<and>
   inbox (channelCache request_blank) = None \<and>
   channel_type (channelCache request_blank) \<in> set (TextChannelTypes route_env0) \<and>
   content (body request_blank) = Some ''  '' \<and> trim ''  '' = [] \<and>
   request_file request_blank = None \<and>
   route route_env0 request_blank =
     (Status 400 (generateError ''content or attachment is required.''), []) \<and>
   customExpressValidatorResult request0 = None \<and>
   content (body request0) = Some ''hello'' \<and> trim ''hello'' = ''hello'' \<and>
   fst (route route_env0 request0) \<noteq>
     Status 400 (generateError ''content or attachment is required.'')"
proof -
  have blank: "customExpressValidatorResult request_blank = None"
    "inbox (channelCache request_blank) = None \<or>
     (\<exists>i. inbox (channelCache request_blank) = Some i \<and> canMessage i)"
    "channel_type (channelCache request_blank) \<in> set (TextChannelTypes route_env0)"
    by (simp_all add: request_blank_def request0_def channel0_def route_env0_def
        customExpressValidatorResult_def content_errors_def socketId_errors_def isLength_def)
  have hello: "customExpressValidatorResult request0 = None"
    "inbox (channelCache request0) = None \<or>
     (\<exists>i. inbox (channelCache request0) = Some i \<and> canMessage i)"
    "channel_type (channelCache request0) \<in> set (TextChannelTypes route_env0)"
    by (simp_all add: request0_def channel0_def route_env0_def
        customExpressValidatorResult_def content_errors_def socketId_errors_def isLength_def)
  have facts: "inbox (channelCache request_blank) = None"
    "content (body request_blank) = Some ''  ''" "trim ''  '' = []"
    "request_file request_blank = None"
    "content (body request0) = Some ''hello''" "trim ''hello'' = ''hello''"
    "request_file request0 = None"
    by (simp_all add: request_blank_def request0_def channel0_def request_file_def trim_def
        js_whitespace_def)
  show ?thesis
    using content_or_attachment_required [OF blank] content_or_attachment_required [OF hello]
      blank(1,3) hello(1) facts
    by (cases "route route_env0 request_blank") simp
qed

text \<open>
  The claim without the hypotheses on validation and on the inbox fails for requests
  that reach the route on a text channel. An empty content trims to the empty string,
  and with no file the route answers with the content-length error. On an inbox whose
  recipient refuses messages, with neither content nor file, the route answers "You
  cannot message this user.".
\<close>

theorem content_or_attachment_required_counterexample:
  "content (body request_empty) = Some [] \<and> trim [] = [] \<and>
   request_file request_empty = None \<and>
   channel_type (channelCache request_empty) \<in> set (TextChannelTypes route_env0) \<and>
   route route_env0 request_empty =
     (Status 400 (generateError
        ''Content length must be between 1 and 2000 characters.''), []) \<and>
   generateError ''Content length must be between 1 and 2000 characters.'' \<noteq>
     generateError ''content or attachment is required.'' \<and>
   content (body request_blocked) = None \<and> request_file request_blocked = None \<and>
   channel_type (channelCache request_blocked) \<in> set (TextChannelTypes route_env0) \<and>
   route route_env0 request_blocked =
     (Status 400 (generateError ''You cannot message this user.''), []) \<and>
   generateError ''You cannot message this user.'' \<noteq>
     generateError ''content or attachment is required.''"
  by (simp add: request_empty_def request_blocked_def request0_def channel0_def
      channel_blocked_def route_env0_def route_def customExpressValidatorResult_def
      content_errors_def socketId_errors_def isLength_def request_file_def trim_def
      generateError_def)

text \<open>
  Claim C2. When the route has called \<open>uploadImage\<close> and the call resolved with an
  error (a non-empty string or a typed error), the route answers 403: a plain string
  is the message itself, the type \<open>INVALID_IMAGE\<close> gives "You can only upload images
  for now.", every other type gives "An unknown error has occurred (<type>)". The
  call to \<open>uploadImage\<close> is then the only call the route makes: \<open>createMessage\<close> is not
  invoked.
\<close>

theorem upload_failure_rejected:
  assumes "UploadImage f filename channelId \<in> set (snd (route env req))"
    and "snd (uploadImage env f filename channelId) = Some err"
    and "err \<noteq> Reason []"
  shows "route env req =
     (Status 403 (generateError
        (case err of
           Reason reason \<Rightarrow> reason
         | Typed t \<Rightarrow>
             if t = ''INVALID_IMAGE'' then ''You can only upload images for now.''
             else ''An unknown error has occurred ('' @ t @ '')'')),
      [UploadImage f filename channelId]) \<and>
     (\<forall>opts. CreateMessage opts \<notin> set (snd (route env req)))"
proof -
  have "route env req =
     (Status 403 (generateError
        (case err of
           Reason reason \<Rightarrow> reason
         | Typed t \<Rightarrow>
             if t = ''INVALID_IMAGE'' then ''You can only upload images for now.''
             else ''An unknown error has occurred ('' @ t @ '')'')),
      [UploadImage f filename channelId])"
    using assms
    by (auto simp: route_def send_message_def attach_and_send_def Let_def
        split: option.splits if_splits prod.splits upload_error.splits)
  then show ?thesis
    by simp
qed

theorem upload_failure_rejected_witness:
  "route route_env0 (request_with_file ''txt'') =
     (Status 403 (generateError ''You can only upload images for now.''),
      [UploadImage ''txt'' ''upload.bin'' ''c1'']) \<and>
   route route_env0 (request_with_file ''big'') =
     (Status 403 (generateError ''An unknown error has occurred (TOO_LARGE)''),
      [UploadImage ''big'' ''upload.bin'' ''c1'']) \<and>
   route route_env0 (request_with_file ''gif'') =
     (Status 403 (generateError ''Could not connect to the CDN.''),
      [UploadImage ''gif'' ''upload.bin'' ''c1''])"
proof -
  have called: "UploadImage f ''upload.bin'' ''c1'' \<in> set (snd (route route_env0 (request_with_file f)))"
    if "f \<noteq> ''png''" for f
    using that
    by (simp add: request_with_file_def request0_def channel0_def route_env0_def route_def
        customExpressValidatorResult_def content_errors_def socketId_errors_def isLength_def
        request_file_def trim_def js_whitespace_def)
  have failed: "snd (uploadImage route_env0 ''txt'' ''upload.bin'' ''c1'') = Some (Typed ''INVALID_IMAGE'')"
    "snd (uploadImage route_env0 ''big'' ''upload.bin'' ''c1'') = Some (Typed ''TOO_LARGE'')"
    "snd (uploadImage route_env0 ''gif'' ''upload.bin'' ''c1'') = Some (Reason ''Could not connect to the CDN.'')"
    by (simp_all add: route_env0_def)
  show ?thesis
    using upload_failure_rejected [OF called failed(1)]
      upload_failure_rejected [OF called failed(2)]
      upload_failure_rejected [OF called failed(3)]
    by simp
qed

lemma inbox_bypasses_permissions:
  "inbox (channelCache req) = Some i \<Longrightarrow>
   channelMessageCreate penv env p req = Routed (route env req)"
  by (simp add: channelMessageCreate_def channelPermissions_def memberHasRolePermission_def)

lemma inbox_blocked:
  "inbox (channelCache req) = Some i \<Longrightarrow> \<not> canMessage i \<Longrightarrow>
   route env req =
     (Status 400 (case customExpressValidatorResult req of
                    None \<Rightarrow> generateError ''You cannot message this user.''
                  | Some validateError \<Rightarrow> validateError), [])"
  by (simp add: route_def split: option.splits)

lemma inbox_open:
  "inbox (channelCache req) = Some i \<Longrightarrow> canMessage i \<Longrightarrow>
   fst (route env req) \<noteq> Status 400 (generateError ''You cannot message this user.'')"
  by (auto simp: route_def customExpressValidatorResult_def content_errors_def
      socketId_errors_def generateError_def send_message_def attach_and_send_def Let_def
      split: option.splits if_splits list.splits prod.splits upload_error.splits)

text \<open>
  The checks are real on a channel that is no inbox: without the channel bit the
  request is denied before it reaches the route.
\<close>

lemma channel_without_inbox_checked:
  "inbox (channelCache req) = None \<Longrightarrow>
   channel_permissions p AND CHANNEL_SEND_MESSAGE_bit penv = 0 \<Longrightarrow>
   channelMessageCreate penv env p req =
     Denied ''You are not allowed to send messages in this channel.''"
  by (simp add: channelMessageCreate_def channelPermissions_def)

text \<open>
  Claim C3, as amended. On an inbox channel the two permission checks are passed
  whatever the permission integers, the roles and the ownership are, so that the
  request reaches the route, where the recipient's \<open>canMessage\<close> flag alone decides:
  when the flag is false the request fails with status 400 and no collaborator is
  called, so no message is created, and the error is "You cannot message this user."
  when the body passes validation; when the flag is true the route never answers with
  that error.
\<close>

theorem inbox_permission:
  assumes "inbox (channelCache req) = Some i"
  shows "channelMessageCreate penv env p req = Routed (route env req) \<and>
         (\<not> canMessage i \<longrightarrow>
            (\<exists>err. route env req = (Status 400 err, [])) \<and>
            (customExpressValidatorResult req = None \<longrightarrow>
               route env req =
                 (Status 400 (generateError ''You cannot message this user.''), []))) \<and>
         (canMessage i \<longrightarrow>
            fst (route env req) \<noteq>
              Status 400 (generateError ''You cannot message this user.''))"
  using assms
  by (simp add: inbox_bypasses_permissions inbox_blocked inbox_open)

theorem inbox_permission_witness:
  "inbox (channelCache request_blocked) = Some \<lparr>canMessage = False\<rparr> \<and>
   customExpressValidatorResult request_blocked = None \<and>
   channel_permissions permission_none AND CHANNEL_SEND_MESSAGE_bit permission_env0 = 0 \<and>
   channelMessageCreate permission_env0 route_env0 permission_none request_blocked =
     Routed (Status 400 (generateError ''You cannot message this user.''), [])"
proof -
  have h: "inbox (channelCache request_blocked) = Some \<lparr>canMessage = False\<rparr>"
    and v: "customExpressValidatorResult request_blocked = None"
    and b: "channel_permissions permission_none AND CHANNEL_SEND_MESSAGE_bit permission_env0 = 0"
    by (simp_all add: request_blocked_def request0_def channel_blocked_def permission_none_def
        customExpressValidatorResult_def content_errors_def socketId_errors_def)
  show ?thesis
    using inbox_permission [OF h, of permission_env0 route_env0 permission_none] h v b
    by simp
qed

text \<open>
  The claim without the hypothesis on validation fails: on an inbox whose recipient
  refuses messages, a request with an empty content is answered with the
  content-length error.
\<close>

theorem inbox_permission_counterexample:
  "inbox (channelCache request_blocked_empty) = Some \<lparr>canMessage = False\<rparr> \<and>
   channelMessageCreate permission_env0 route_env0 permission_none request_blocked_empty =
     Routed (Status 400 (generateError
       ''Content length must be between 1 and 2000 characters.''), []) \<and>
   generateError ''Content length must be between 1 and 2000 characters.'' \<noteq>
     generateError ''You cannot message this user.''"
  by (simp add: request_blocked_empty_def request_blocked_def request0_def channel_blocked_def
      channelMessageCreate_def channelPermissions_def memberHasRolePermission_def
      route_def customExpressValidatorResult_def content_errors_def socketId_errors_def
      isLength_def generateError_def)

end
